theory Spec2Isabelle
  imports Complex_Main
begin

section \<open>The U-Net segmentation models of \<^verbatim>\<open>inria/models/unet.py\<close>\<close>

text \<open>
  The module is glue over two external libraries: a deep-learning toolbelt (encoders, the
  U-Net decoder, \<^verbatim>\<open>conv1x1\<close>, the \<^verbatim>\<open>torch\<close> layers and \<^verbatim>\<open>F.interpolate\<close>) and the registry
  decorator \<^verbatim>\<open>Model\<close>. The libraries are not part of the module, so the embedding takes them
  as a parameter: a record of functions, each returning either the library's exception or
  its result. Every call into the library is written down in a call log together with its
  outcome, so that which calls an operation makes, and in which order, can be stated.
\<close>

subsection \<open>Values passed to the libraries\<close>

text \<open>The activation names imported from the toolbelt.\<close>

datatype activation = ACT_RELU | ACT_SWISH

text \<open>The encoder classes of \<^verbatim>\<open>pytorch_toolbelt.modules.encoders\<close> that the module instantiates.\<close>

datatype backbone =
    Resnet18Encoder | Resnet34Encoder | Resnet50Encoder | Resnet101Encoder | Resnet152Encoder
  | DenseNet121Encoder | DenseNet161Encoder | DenseNet169Encoder | DenseNet201Encoder
  | HRNetV2Encoder18 | HRNetV2Encoder34 | HRNetV2Encoder48
  | EfficientNetB0Encoder | EfficientNetB5Encoder

text \<open>
  \<^verbatim>\<open>unet_channels: Union[int, List[int]]\<close>: the caller may pass a plain integer or a list.
\<close>

datatype channels_arg = ChInt int | ChList "int list"

text \<open>
  \<^verbatim>\<open>partial(ABN, activation=activation)\<close>, \<^verbatim>\<open>partial(UnetBlock, abn_block=abn_block)\<close> and
  \<^verbatim>\<open>nn.UpsamplingNearest2d\<close>: the block constructors handed to the decoder.
\<close>

datatype abn_block = ABN_partial activation
datatype unet_block = UnetBlock_partial abn_block
datatype upsample_block = UpsamplingNearest2d

datatype interp_mode = Bilinear

text \<open>
  The exceptions an operation of the module can end with: the two that Python's own
  subscript operator raises, and whatever a library call raised, passed on unchanged.
\<close>

datatype error = TypeError | IndexError | LibraryError string

subsection \<open>The library interface\<close>

text \<open>
  \<open>'t\<close> is the type of tensors, \<open>'e\<close> of encoder modules, \<open>'d\<close> of decoder modules and
  \<open>'l\<close> of the layers of the mask head. A keyword argument that a call leaves out is \<open>None\<close>.
  \<^verbatim>\<open>encoder.change_input_channels(n)\<close> patches the encoder in place; here it returns the
  patched encoder, to which the name \<^verbatim>\<open>encoder\<close> refers from then on.
  \<^verbatim>\<open>UNetDecoder\<close> is handed the list object \<^verbatim>\<open>unet_channels\<close> itself, not a copy, and may
  assign to its items; here it returns, with the decoder, the item assignments it made to
  that list, each an index and the value stored there, in the order made.
\<close>

record ('t, 'e, 'd, 'l) lib =
  new_encoder :: "backbone \<Rightarrow> bool option \<Rightarrow> int list option \<Rightarrow> activation option \<Rightarrow> string + 'e"
  change_input_channels :: "'e \<Rightarrow> int \<Rightarrow> string + 'e"
  channels :: "'e \<Rightarrow> int list"
  UNetDecoder :: "int list \<Rightarrow> channels_arg \<Rightarrow> unet_block \<Rightarrow> upsample_block
                    \<Rightarrow> string + ('d \<times> (nat \<times> int) list)"
  Dropout2d :: "rat \<Rightarrow> string + 'l"
  conv1x1 :: "int \<Rightarrow> int \<Rightarrow> string + 'l"
  encoder_forward :: "'e \<Rightarrow> 't \<Rightarrow> string + 't list"
  decoder_forward :: "'d \<Rightarrow> 't list \<Rightarrow> string + 't list"
  layer_forward :: "'l \<Rightarrow> 't \<Rightarrow> string + 't"
  tensor_size :: "'t \<Rightarrow> nat list"
  interpolate :: "'t \<Rightarrow> nat list \<Rightarrow> interp_mode \<Rightarrow> bool \<Rightarrow> string + 't"

subsection \<open>The call log\<close>

datatype lib_call =
    Call_new_encoder backbone "bool option" "int list option" "activation option"
  | Call_change_input_channels int
  | Call_UNetDecoder "int list" channels_arg unet_block upsample_block
  | Call_Dropout2d rat
  | Call_conv1x1 int int
  | Call_encoder_forward
  | Call_decoder_forward
  | Call_layer_forward string
  | Call_interpolate "nat list" interp_mode bool

text \<open>An entry of the log: the call, and whether it returned (\<open>True\<close>) or raised.\<close>

type_synonym log = "(lib_call \<times> bool) list"

text \<open>
  An operation of the module yields its outcome and the library calls it made, in order.
\<close>

type_synonym 'a run = "(error + 'a) \<times> log"

definition returnM :: "'a \<Rightarrow> 'a run" where
  "returnM v = (Inr v, [])"

definition raiseM :: "error \<Rightarrow> 'a run" where
  "raiseM e = (Inl e, [])"

text \<open>Sequencing: an exception ends the operation; nothing in the module catches one.\<close>

definition bindM :: "'a run \<Rightarrow> ('a \<Rightarrow> 'b run) \<Rightarrow> 'b run" where
  "bindM m f =
     (case m of
        (Inl e, calls) \<Rightarrow> (Inl e, calls)
      | (Inr v, calls) \<Rightarrow> (case f v of (r, calls') \<Rightarrow> (r, calls @ calls')))"

text \<open>A call into the library: logged, its exception passed on as it is.\<close>

definition lib_call :: "lib_call \<Rightarrow> string + 'a \<Rightarrow> 'a run" where
  "lib_call c r =
     (case r of
        Inl msg \<Rightarrow> (Inl (LibraryError msg), [(c, False)])
      | Inr v \<Rightarrow> (Inr v, [(c, True)]))"

text \<open>A default of a Python keyword parameter.\<close>

definition default_arg :: "'a \<Rightarrow> 'a option \<Rightarrow> 'a" where
  "default_arg d a = (case a of None \<Rightarrow> d | Some v \<Rightarrow> v)"

subsection \<open>\<^verbatim>\<open>UnetSegmentationModel\<close>\<close>

text \<open>
  The attributes set by \<^verbatim>\<open>__init__\<close>. \<^verbatim>\<open>self.mask\<close> is an \<^verbatim>\<open>nn.Sequential\<close> over an
  \<^verbatim>\<open>OrderedDict\<close>: the named layers in insertion order.
\<close>

record ('e, 'd, 'l) UnetSegmentationModel =
  encoder :: 'e
  decoder :: 'd
  mask :: "(string \<times> 'l) list"
  full_size_mask :: bool

text \<open>
  The list \<^verbatim>\<open>unet_channels\<close> after the decoder's constructor has run: the item assignments
  applied in order. An assignment changes one item and never the length of the list (one
  beyond the end of the list raises inside the library, which then has not returned). An
  integer cannot be assigned to.
\<close>

definition assign_items :: "(nat \<times> int) list \<Rightarrow> int list \<Rightarrow> int list" where
  "assign_items writes cs = fold (\<lambda>(i, v) xs. xs[i := v]) writes cs"

fun unet_channels_after :: "channels_arg \<Rightarrow> (nat \<times> int) list \<Rightarrow> channels_arg" where
  "unet_channels_after (ChInt n) writes = ChInt n"
| "unet_channels_after (ChList cs) writes = ChList (assign_items writes cs)"

text \<open>\<^verbatim>\<open>unet_channels[0]\<close>: an integer is not subscriptable, an empty list has no index 0.\<close>

fun getitem0 :: "channels_arg \<Rightarrow> int run" where
  "getitem0 (ChInt n) = raiseM TypeError"
| "getitem0 (ChList []) = raiseM IndexError"
| "getitem0 (ChList (c # cs)) = returnM c"

text \<open>
  \<^verbatim>\<open>__init__(self, encoder, unet_channels, num_classes=1, dropout=0.25,
  full_size_mask=True, activation=ACT_RELU)\<close>. The decoder is built first; inside the list
  literal of the mask head Python evaluates \<^verbatim>\<open>nn.Dropout2d(dropout)\<close>, then
  \<^verbatim>\<open>unet_channels[0]\<close>, then the call of \<^verbatim>\<open>conv1x1\<close>. The subscript reads the list as the
  decoder's constructor left it.
\<close>

definition UnetSegmentationModel_init ::
  "('t, 'e, 'd, 'l) lib \<Rightarrow> 'e \<Rightarrow> channels_arg \<Rightarrow> int option \<Rightarrow> rat option \<Rightarrow> bool option
     \<Rightarrow> activation option \<Rightarrow> ('e, 'd, 'l) UnetSegmentationModel run" where
  "UnetSegmentationModel_init L enc unet_channels num_classes_arg dropout_arg full_size_mask_arg
       activation_arg =
     (let num_classes = default_arg 1 num_classes_arg;
          dropout = default_arg 0.25 dropout_arg;
          full_size = default_arg True full_size_mask_arg;
          act = default_arg ACT_RELU activation_arg;
          abn = ABN_partial act;
          feature_maps = channels L enc
      in
      bindM (lib_call (Call_UNetDecoder feature_maps unet_channels (UnetBlock_partial abn)
                         UpsamplingNearest2d)
               (UNetDecoder L feature_maps unet_channels (UnetBlock_partial abn)
                  UpsamplingNearest2d)) (\<lambda>(dec, writes).
      bindM (lib_call (Call_Dropout2d dropout) (Dropout2d L dropout)) (\<lambda>drop_layer.
      bindM (getitem0 (unet_channels_after unet_channels writes)) (\<lambda>c0.
      bindM (lib_call (Call_conv1x1 c0 num_classes) (conv1x1 L c0 num_classes)) (\<lambda>conv_layer.
      returnM \<lparr> encoder = enc, decoder = dec,
                mask = [(''drop'', drop_layer), (''conv'', conv_layer)],
                full_size_mask = full_size \<rparr>)))))"

text \<open>
  Calling an \<^verbatim>\<open>nn.Sequential\<close>: each layer in order, on the output of the one before.
\<close>

fun Sequential_forward :: "('t, 'e, 'd, 'l) lib \<Rightarrow> (string \<times> 'l) list \<Rightarrow> 't \<Rightarrow> 't run" where
  "Sequential_forward L [] x = returnM x"
| "Sequential_forward L ((name, layer) # rest) x =
     bindM (lib_call (Call_layer_forward name) (layer_forward L layer x))
       (\<lambda>y. Sequential_forward L rest y)"

text \<open>\<^verbatim>\<open>x[0]\<close> on the list the decoder returned.\<close>

fun first_item :: "'a list \<Rightarrow> 'a run" where
  "first_item [] = raiseM IndexError"
| "first_item (y # ys) = returnM y"

text \<open>
  \<^verbatim>\<open>forward(self, x)\<close>. \<open>key\<close> is the constant \<^verbatim>\<open>OUTPUT_MASK_KEY\<close>, imported from the package's
  \<^verbatim>\<open>dataset\<close> module; \<^verbatim>\<open>x_size[2:]\<close> drops the first two entries of the size.
\<close>

definition forward ::
  "('t, 'e, 'd, 'l) lib \<Rightarrow> string \<Rightarrow> ('e, 'd, 'l) UnetSegmentationModel \<Rightarrow> 't
     \<Rightarrow> (string \<rightharpoonup> 't) run" where
  "forward L key self x =
     (let x_size = tensor_size L x in
      bindM (lib_call Call_encoder_forward (encoder_forward L (encoder self) x)) (\<lambda>feats.
      bindM (lib_call Call_decoder_forward (decoder_forward L (decoder self) feats)) (\<lambda>ys.
      bindM (first_item ys) (\<lambda>y0.
      bindM (Sequential_forward L (mask self) y0) (\<lambda>m.
      bindM (if full_size_mask self
             then lib_call (Call_interpolate (drop 2 x_size) Bilinear False)
                    (interpolate L m (drop 2 x_size) Bilinear False)
             else returnM m) (\<lambda>m'.
      returnM (Map.empty(key \<mapsto> m'))))))))"

subsection \<open>The factory functions\<close>

text \<open>
  Every factory has the keyword parameters \<^verbatim>\<open>input_channels\<close>, \<^verbatim>\<open>num_classes\<close>, \<^verbatim>\<open>dropout\<close>
  and \<^verbatim>\<open>pretrained\<close>; a parameter the caller leaves out is \<open>None\<close> and takes the default
  written in the factory's signature.
\<close>

record factory_args =
  arg_input_channels :: "int option"
  arg_num_classes :: "int option"
  arg_dropout :: "rat option"
  arg_pretrained :: "bool option"

type_synonym ('t, 'e, 'd, 'l) factory =
  "('t, 'e, 'd, 'l) lib \<Rightarrow> factory_args \<Rightarrow> ('e, 'd, 'l) UnetSegmentationModel run"

text \<open>The two library calls a factory makes itself, logged.\<close>

definition construct_encoder ::
  "('t, 'e, 'd, 'l) lib \<Rightarrow> backbone \<Rightarrow> bool option \<Rightarrow> int list option \<Rightarrow> activation option
     \<Rightarrow> 'e run" where
  "construct_encoder L bb pretrained_kw layers_kw activation_kw =
     lib_call (Call_new_encoder bb pretrained_kw layers_kw activation_kw)
       (new_encoder L bb pretrained_kw layers_kw activation_kw)"

definition call_change_input_channels :: "('t, 'e, 'd, 'l) lib \<Rightarrow> 'e \<Rightarrow> int \<Rightarrow> 'e run" where
  "call_change_input_channels L enc n =
     lib_call (Call_change_input_channels n) (change_input_channels L enc n)"

definition resnet18_unet32 :: "('t, 'e, 'd, 'l) factory" where
  "resnet18_unet32 L args =
     (let input_channels = default_arg 3 (arg_input_channels args);
          num_classes = default_arg 1 (arg_num_classes args);
          dropout = default_arg 0 (arg_dropout args);
          pretrained = default_arg True (arg_pretrained args)
      in
      bindM (construct_encoder L Resnet18Encoder (Some pretrained) (Some [0, 1, 2, 3, 4]) None) (\<lambda>enc.
      bindM (if input_channels \<noteq> 3 then call_change_input_channels L enc input_channels
             else returnM enc) (\<lambda>enc.
      UnetSegmentationModel_init L enc (ChList [32, 64, 128, 256]) (Some num_classes) (Some dropout)
        None None)))"

definition resnet34_unet32 :: "('t, 'e, 'd, 'l) factory" where
  "resnet34_unet32 L args =
     (let input_channels = default_arg 3 (arg_input_channels args);
          num_classes = default_arg 1 (arg_num_classes args);
          dropout = default_arg 0 (arg_dropout args);
          pretrained = default_arg True (arg_pretrained args)
      in
      bindM (construct_encoder L Resnet34Encoder (Some pretrained) (Some [0, 1, 2, 3, 4]) None) (\<lambda>enc.
      bindM (if input_channels \<noteq> 3 then call_change_input_channels L enc input_channels
             else returnM enc) (\<lambda>enc.
      UnetSegmentationModel_init L enc (ChList [32, 64, 128, 256]) (Some num_classes) (Some dropout)
        None None)))"

definition resnet50_unet32 :: "('t, 'e, 'd, 'l) factory" where
  "resnet50_unet32 L args =
     (let input_channels = default_arg 3 (arg_input_channels args);
          num_classes = default_arg 1 (arg_num_classes args);
          dropout = default_arg 0 (arg_dropout args);
          pretrained = default_arg True (arg_pretrained args)
      in
      bindM (construct_encoder L Resnet50Encoder (Some pretrained) (Some [0, 1, 2, 3, 4]) None) (\<lambda>enc.
      bindM (if input_channels \<noteq> 3 then call_change_input_channels L enc input_channels
             else returnM enc) (\<lambda>enc.
      UnetSegmentationModel_init L enc (ChList [32, 64, 128, 256]) (Some num_classes) (Some dropout)
        None None)))"

definition resnet101_unet64 :: "('t, 'e, 'd, 'l) factory" where
  "resnet101_unet64 L args =
     (let input_channels = default_arg 3 (arg_input_channels args);
          num_classes = default_arg 1 (arg_num_classes args);
          dropout = default_arg 0.5 (arg_dropout args);
          pretrained = default_arg True (arg_pretrained args)
      in
      bindM (construct_encoder L Resnet101Encoder (Some pretrained) (Some [0, 1, 2, 3, 4]) None) (\<lambda>enc.
      bindM (if input_channels \<noteq> 3 then call_change_input_channels L enc input_channels
             else returnM enc) (\<lambda>enc.
      UnetSegmentationModel_init L enc (ChList [64, 128, 256, 512]) (Some num_classes) (Some dropout)
        None None)))"

definition resnet152_unet32 :: "('t, 'e, 'd, 'l) factory" where
  "resnet152_unet32 L args =
     (let input_channels = default_arg 3 (arg_input_channels args);
          num_classes = default_arg 1 (arg_num_classes args);
          dropout = default_arg 0 (arg_dropout args);
          pretrained = default_arg True (arg_pretrained args)
      in
      bindM (construct_encoder L Resnet152Encoder (Some pretrained) (Some [0, 1, 2, 3, 4]) None) (\<lambda>enc.
      bindM (if input_channels \<noteq> 3 then call_change_input_channels L enc input_channels
             else returnM enc) (\<lambda>enc.
      UnetSegmentationModel_init L enc (ChList [32, 64, 128, 256]) (Some num_classes) (Some dropout)
        None None)))"

definition densenet121_unet32 :: "('t, 'e, 'd, 'l) factory" where
  "densenet121_unet32 L args =
     (let input_channels = default_arg 3 (arg_input_channels args);
          num_classes = default_arg 1 (arg_num_classes args);
          dropout = default_arg 0 (arg_dropout args);
          pretrained = default_arg True (arg_pretrained args)
      in
      bindM (construct_encoder L DenseNet121Encoder (Some pretrained) (Some [0, 1, 2, 3, 4]) None) (\<lambda>enc.
      bindM (if input_channels \<noteq> 3 then call_change_input_channels L enc input_channels
             else returnM enc) (\<lambda>enc.
      UnetSegmentationModel_init L enc (ChList [32, 64, 128, 256]) (Some num_classes) (Some dropout)
        None None)))"

definition densenet161_unet32 :: "('t, 'e, 'd, 'l) factory" where
  "densenet161_unet32 L args =
     (let input_channels = default_arg 3 (arg_input_channels args);
          num_classes = default_arg 1 (arg_num_classes args);
          dropout = default_arg 0 (arg_dropout args);
          pretrained = default_arg True (arg_pretrained args)
      in
      bindM (construct_encoder L DenseNet161Encoder (Some pretrained) (Some [0, 1, 2, 3, 4]) None) (\<lambda>enc.
      bindM (if input_channels \<noteq> 3 then call_change_input_channels L enc input_channels
             else returnM enc) (\<lambda>enc.
      UnetSegmentationModel_init L enc (ChList [32, 64, 128, 256]) (Some num_classes) (Some dropout)
        None None)))"

definition densenet169_unet32 :: "('t, 'e, 'd, 'l) factory" where
  "densenet169_unet32 L args =
     (let input_channels = default_arg 3 (arg_input_channels args);
          num_classes = default_arg 1 (arg_num_classes args);
          dropout = default_arg 0 (arg_dropout args);
          pretrained = default_arg True (arg_pretrained args)
      in
      bindM (construct_encoder L DenseNet169Encoder (Some pretrained) (Some [0, 1, 2, 3, 4]) None) (\<lambda>enc.
      bindM (if input_channels \<noteq> 3 then call_change_input_channels L enc input_channels
             else returnM enc) (\<lambda>enc.
      UnetSegmentationModel_init L enc (ChList [32, 64, 128, 256]) (Some num_classes) (Some dropout)
        None None)))"

definition densenet201_unet32 :: "('t, 'e, 'd, 'l) factory" where
  "densenet201_unet32 L args =
     (let input_channels = default_arg 3 (arg_input_channels args);
          num_classes = default_arg 1 (arg_num_classes args);
          dropout = default_arg 0 (arg_dropout args);
          pretrained = default_arg True (arg_pretrained args)
      in
      bindM (construct_encoder L DenseNet201Encoder (Some pretrained) (Some [0, 1, 2, 3, 4]) None) (\<lambda>enc.
      bindM (if input_channels \<noteq> 3 then call_change_input_channels L enc input_channels
             else returnM enc) (\<lambda>enc.
      UnetSegmentationModel_init L enc (ChList [32, 64, 128, 256]) (Some num_classes) (Some dropout)
        None None)))"

definition hrnet18_unet32 :: "('t, 'e, 'd, 'l) factory" where
  "hrnet18_unet32 L args =
     (let input_channels = default_arg 3 (arg_input_channels args);
          num_classes = default_arg 1 (arg_num_classes args);
          dropout = default_arg 0 (arg_dropout args);
          pretrained = default_arg True (arg_pretrained args)
      in
      bindM (construct_encoder L HRNetV2Encoder18 (Some pretrained) None None) (\<lambda>enc.
      bindM (if input_channels \<noteq> 3 then call_change_input_channels L enc input_channels
             else returnM enc) (\<lambda>enc.
      UnetSegmentationModel_init L enc (ChList [32, 64, 128, 256]) (Some num_classes) (Some dropout)
        None None)))"

definition hrnet34_unet32 :: "('t, 'e, 'd, 'l) factory" where
  "hrnet34_unet32 L args =
     (let input_channels = default_arg 3 (arg_input_channels args);
          num_classes = default_arg 1 (arg_num_classes args);
          dropout = default_arg 0 (arg_dropout args);
          pretrained = default_arg True (arg_pretrained args)
      in
      bindM (construct_encoder L HRNetV2Encoder34 (Some pretrained) None None) (\<lambda>enc.
      bindM (if input_channels \<noteq> 3 then call_change_input_channels L enc input_channels
             else returnM enc) (\<lambda>enc.
      UnetSegmentationModel_init L enc (ChList [32, 64, 128, 256]) (Some num_classes) (Some dropout)
        None None)))"

definition hrnet48_unet32 :: "('t, 'e, 'd, 'l) factory" where
  "hrnet48_unet32 L args =
     (let input_channels = default_arg 3 (arg_input_channels args);
          num_classes = default_arg 1 (arg_num_classes args);
          dropout = default_arg 0 (arg_dropout args);
          pretrained = default_arg True (arg_pretrained args)
      in
      bindM (construct_encoder L HRNetV2Encoder48 (Some pretrained) None None) (\<lambda>enc.
      bindM (if input_channels \<noteq> 3 then call_change_input_channels L enc input_channels
             else returnM enc) (\<lambda>enc.
      UnetSegmentationModel_init L enc (ChList [32, 64, 128, 256]) (Some num_classes) (Some dropout)
        None None)))"

definition b0_unet32 :: "('t, 'e, 'd, 'l) factory" where
  "b0_unet32 L args =
     (let input_channels = default_arg 3 (arg_input_channels args);
          num_classes = default_arg 1 (arg_num_classes args);
          dropout = default_arg 0 (arg_dropout args);
          pretrained = default_arg True (arg_pretrained args)
      in
      bindM (construct_encoder L EfficientNetB0Encoder None None None) (\<lambda>enc.
      bindM (if input_channels \<noteq> 3 then call_change_input_channels L enc input_channels
             else returnM enc) (\<lambda>enc.
      UnetSegmentationModel_init L enc (ChList [32, 64, 128]) (Some num_classes) (Some dropout)
        None (Some ACT_SWISH))))"

definition b5_unet32 :: "('t, 'e, 'd, 'l) factory" where
  "b5_unet32 L args =
     (let input_channels = default_arg 3 (arg_input_channels args);
          num_classes = default_arg 1 (arg_num_classes args);
          dropout = default_arg 0 (arg_dropout args);
          pretrained = default_arg True (arg_pretrained args)
      in
      bindM (construct_encoder L EfficientNetB5Encoder None None None) (\<lambda>enc.
      bindM (if input_channels \<noteq> 3 then call_change_input_channels L enc input_channels
             else returnM enc) (\<lambda>enc.
      UnetSegmentationModel_init L enc (ChList [32, 64, 128]) (Some num_classes) (Some dropout)
        None (Some ACT_SWISH))))"

definition b5_unet32_relu :: "('t, 'e, 'd, 'l) factory" where
  "b5_unet32_relu L args =
     (let input_channels = default_arg 3 (arg_input_channels args);
          num_classes = default_arg 1 (arg_num_classes args);
          dropout = default_arg 0 (arg_dropout args);
          pretrained = default_arg True (arg_pretrained args)
      in
      bindM (construct_encoder L EfficientNetB5Encoder None None (Some ACT_RELU)) (\<lambda>enc.
      bindM (if input_channels \<noteq> 3 then call_change_input_channels L enc input_channels
             else returnM enc) (\<lambda>enc.
      UnetSegmentationModel_init L enc (ChList [32, 64, 128]) (Some num_classes) (Some dropout)
        None (Some ACT_RELU))))"

subsection \<open>The module's top level\<close>

text \<open>
  Importing the module runs its statements in order: the assignment of \<^verbatim>\<open>__all__\<close>, the class
  definition, and the function definitions, each of which may carry the decorator
  \<^verbatim>\<open>@Model\<close>. The decorator belongs to the training framework: it enters the function
  under its own name into the framework's model registry and gives the function back
  unchanged.
\<close>

datatype 'f stmt =
    Assign_all "string list"
  | ClassDef string
  | Def string 'f
  | Model_Def string 'f

record 'f module_state =
  mod_exports :: "string list"
  mod_classes :: "string list"
  mod_functions :: "(string \<times> 'f) list"
  mod_registry :: "(string \<times> 'f) list"

definition Model :: "string \<Rightarrow> 'f \<Rightarrow> (string \<times> 'f) list \<Rightarrow> 'f \<times> (string \<times> 'f) list" where
  "Model name f reg = (f, reg @ [(name, f)])"

fun exec_stmt :: "'f stmt \<Rightarrow> 'f module_state \<Rightarrow> 'f module_state" where
  "exec_stmt (Assign_all names) st = st\<lparr>mod_exports := names\<rparr>"
| "exec_stmt (ClassDef name) st = st\<lparr>mod_classes := mod_classes st @ [name]\<rparr>"
| "exec_stmt (Def name f) st = st\<lparr>mod_functions := mod_functions st @ [(name, f)]\<rparr>"
| "exec_stmt (Model_Def name f) st =
     (case Model name f (mod_registry st) of
        (f', reg') \<Rightarrow> st\<lparr>mod_functions := mod_functions st @ [(name, f')], mod_registry := reg'\<rparr>)"

definition exec_module :: "'f stmt list \<Rightarrow> 'f module_state" where
  "exec_module body =
     fold exec_stmt body \<lparr>mod_exports = [], mod_classes = [], mod_functions = [], mod_registry = []\<rparr>"

definition unet_module_body :: "('t, 'e, 'd, 'l) factory stmt list" where
  "unet_module_body =
     [Assign_all
        [''UnetSegmentationModel'',
         ''resnet18_unet32'',
         ''resnet34_unet32'',
         ''resnet50_unet32'',
         ''resnet101_unet64'',
         ''resnet152_unet32'',
         ''densenet121_unet32'',
         ''densenet161_unet32'',
         ''densenet169_unet32'',
         ''densenet201_unet32'',
         ''b0_unet32'',
         ''b5_unet32'',
         ''b5_unet32_relu''],
      ClassDef ''UnetSegmentationModel'',
      Model_Def ''resnet18_unet32'' resnet18_unet32,
      Model_Def ''resnet34_unet32'' resnet34_unet32,
      Model_Def ''resnet50_unet32'' resnet50_unet32,
      Model_Def ''resnet101_unet64'' resnet101_unet64,
      Model_Def ''resnet152_unet32'' resnet152_unet32,
      Model_Def ''densenet121_unet32'' densenet121_unet32,
      Model_Def ''densenet161_unet32'' densenet161_unet32,
      Model_Def ''densenet169_unet32'' densenet169_unet32,
      Model_Def ''densenet201_unet32'' densenet201_unet32,
      Model_Def ''hrnet18_unet32'' hrnet18_unet32,
      Model_Def ''hrnet34_unet32'' hrnet34_unet32,
      Model_Def ''hrnet48_unet32'' hrnet48_unet32,
      Model_Def ''b0_unet32'' b0_unet32,
      Model_Def ''b5_unet32'' b5_unet32,
      Model_Def ''b5_unet32_relu'' b5_unet32_relu]"

definition unet_module :: "('t, 'e, 'd, 'l) factory module_state" where
  "unet_module = exec_module unet_module_body"

subsection \<open>A shape-level instance of the library\<close>

text \<open>
  To run the model a library is needed. This instance keeps of every tensor only its size.
  An encoder is its class, its input channel count and the feature maps it returns, each
  with its channel count and its stride; a decoder is the list of its output widths; a
  layer is its constructor call. The stages of each backbone are those of the reference
  architectures; \<^verbatim>\<open>layers\<close> selects among them.
\<close>

fun shape_stages :: "backbone \<Rightarrow> (int \<times> nat) list" where
  "shape_stages Resnet18Encoder = [(64, 2), (64, 4), (128, 8), (256, 16), (512, 32)]"
| "shape_stages Resnet34Encoder = [(64, 2), (64, 4), (128, 8), (256, 16), (512, 32)]"
| "shape_stages Resnet50Encoder = [(64, 2), (256, 4), (512, 8), (1024, 16), (2048, 32)]"
| "shape_stages Resnet101Encoder = [(64, 2), (256, 4), (512, 8), (1024, 16), (2048, 32)]"
| "shape_stages Resnet152Encoder = [(64, 2), (256, 4), (512, 8), (1024, 16), (2048, 32)]"
| "shape_stages DenseNet121Encoder = [(64, 2), (128, 4), (256, 8), (512, 16), (1024, 32)]"
| "shape_stages DenseNet161Encoder = [(96, 2), (192, 4), (384, 8), (1056, 16), (2208, 32)]"
| "shape_stages DenseNet169Encoder = [(64, 2), (128, 4), (256, 8), (640, 16), (1664, 32)]"
| "shape_stages DenseNet201Encoder = [(64, 2), (128, 4), (256, 8), (896, 16), (1920, 32)]"
| "shape_stages HRNetV2Encoder18 = [(64, 2), (18, 4), (36, 8), (72, 16), (144, 32)]"
| "shape_stages HRNetV2Encoder34 = [(64, 2), (34, 4), (68, 8), (136, 16), (272, 32)]"
| "shape_stages HRNetV2Encoder48 = [(64, 2), (48, 4), (96, 8), (192, 16), (384, 32)]"
| "shape_stages EfficientNetB0Encoder =
     [(16, 2), (24, 4), (40, 8), (80, 16), (112, 16), (192, 32), (320, 32)]"
| "shape_stages EfficientNetB5Encoder =
     [(24, 2), (40, 4), (64, 8), (128, 16), (176, 16), (304, 32), (512, 32)]"

fun shape_default_layers :: "backbone \<Rightarrow> int list" where
  "shape_default_layers EfficientNetB0Encoder = [1, 2, 4, 6]"
| "shape_default_layers EfficientNetB5Encoder = [1, 2, 4, 6]"
| "shape_default_layers HRNetV2Encoder18 = [0, 1, 2, 3, 4]"
| "shape_default_layers HRNetV2Encoder34 = [0, 1, 2, 3, 4]"
| "shape_default_layers HRNetV2Encoder48 = [0, 1, 2, 3, 4]"
| "shape_default_layers bb = [1, 2, 3, 4]"

type_synonym shape_encoder = "backbone \<times> int \<times> (int \<times> nat) list"

definition shape_new_encoder ::
  "backbone \<Rightarrow> bool option \<Rightarrow> int list option \<Rightarrow> activation option \<Rightarrow> string + shape_encoder" where
  "shape_new_encoder bb pretrained_kw layers_kw activation_kw =
     (let layers = default_arg (shape_default_layers bb) layers_kw in
      if list_all (\<lambda>i. 0 \<le> i \<and> nat i < length (shape_stages bb)) layers
      then Inr (bb, 3, map (\<lambda>i. shape_stages bb ! nat i) layers)
      else Inl ''no such layer'')"

fun shape_encoder_forward :: "shape_encoder \<Rightarrow> nat list \<Rightarrow> string + nat list list" where
  "shape_encoder_forward (bb, c, maps) [n, ch, h, w] =
     (if int ch = c
      then Inr (map (\<lambda>(width, stride). [n, nat width, h div stride, w div stride]) maps)
      else Inl ''wrong number of input channels'')"
| "shape_encoder_forward (bb, c, maps) s = Inl ''expected a 4-D input''"

datatype shape_layer = Drop rat | Conv int int

fun shape_layer_forward :: "shape_layer \<Rightarrow> nat list \<Rightarrow> string + nat list" where
  "shape_layer_forward (Drop p) s = Inr s"
| "shape_layer_forward (Conv ci co) [n, ch, h, w] =
     (if int ch = ci then Inr [n, nat co, h, w] else Inl ''wrong number of channels'')"
| "shape_layer_forward (Conv ci co) s = Inl ''expected a 4-D input''"

fun shape_interpolate :: "nat list \<Rightarrow> nat list \<Rightarrow> interp_mode \<Rightarrow> bool \<Rightarrow> string + nat list" where
  "shape_interpolate [n, ch, h, w] [h', w'] mode align = Inr [n, ch, h', w']"
| "shape_interpolate s sz mode align = Inl ''size does not match the input''"

text \<open>
  The decoder has one block for each feature map but the coarsest. It wants a list of as
  many widths, and raises for an integer and for a list of another length. From the
  coarsest block to the finest, a block takes the encoder's feature map of its level and
  the output of the block below (of the coarsest feature map, at the bottom); a width
  given as 0 becomes half the block's input width. The constructor stores every width back
  into the list it was given.
\<close>

fun shape_decoder_widths :: "int list \<Rightarrow> int list \<Rightarrow> int \<Rightarrow> int list" where
  "shape_decoder_widths (f # fs) (c # cs) bottom =
     (let below = shape_decoder_widths fs cs bottom;
          up = (case below of [] \<Rightarrow> bottom | w # ws \<Rightarrow> w)
      in (if c = 0 then (f + up) div 2 else c) # below)"
| "shape_decoder_widths fs cs bottom = []"

fun shape_UNetDecoder ::
  "int list \<Rightarrow> channels_arg \<Rightarrow> unet_block \<Rightarrow> upsample_block
     \<Rightarrow> string + (int list \<times> (nat \<times> int) list)" where
  "shape_UNetDecoder fm (ChInt c) ub up = Inl ''object of type int has no len()''"
| "shape_UNetDecoder fm (ChList cs) ub up =
     (if fm = [] \<or> length cs \<noteq> length fm - 1
      then Inl ''decoder_features has the wrong length''
      else (let widths = shape_decoder_widths fm cs (last fm)
            in Inr (widths, rev (zip [0..<length widths] widths))))"

definition shape_decoder_forward :: "int list \<Rightarrow> nat list list \<Rightarrow> string + nat list list" where
  "shape_decoder_forward widths feats =
     (if length feats = length widths + 1
      then Inr (map (\<lambda>(c, f). f[1 := nat c]) (zip widths feats))
      else Inl ''wrong number of feature maps'')"

definition shape_lib :: "(nat list, shape_encoder, int list, shape_layer) lib" where
  "shape_lib =
     \<lparr> new_encoder = shape_new_encoder,
       change_input_channels =
         (\<lambda>(bb, c, maps) n. if 0 < n then Inr (bb, n, maps) else Inl ''no input channels''),
       channels = (\<lambda>(bb, c, maps). map fst maps),
       UNetDecoder = shape_UNetDecoder,
       Dropout2d = (\<lambda>p. if 0 \<le> p \<and> p \<le> 1 then Inr (Drop p) else Inl ''not a probability''),
       conv1x1 =
         (\<lambda>ci co. if 0 \<le> ci \<and> 0 \<le> co then Inr (Conv ci co) else Inl ''negative channels''),
       encoder_forward = shape_encoder_forward,
       decoder_forward = shape_decoder_forward,
       layer_forward = shape_layer_forward,
       tensor_size = (\<lambda>s. s),
       interpolate = shape_interpolate \<rparr>"

text \<open>A call that leaves every keyword parameter at its default.\<close>

definition default_args :: factory_args where
  "default_args = \<lparr> arg_input_channels = None, arg_num_classes = None, arg_dropout = None,
                     arg_pretrained = None \<rparr>"

text \<open>
  The encoder \<^verbatim>\<open>Resnet18Encoder(layers=[0, 1, 2, 3, 4])\<close> of the shape-level library, the model
  that \<^verbatim>\<open>resnet18_unet32()\<close> builds on it, and the same model with \<^verbatim>\<open>full_size_mask\<close>
  switched off.
\<close>

definition shape_resnet18 :: shape_encoder where
  "shape_resnet18 = (Resnet18Encoder, 3, [(64, 2), (64, 4), (128, 8), (256, 16), (512, 32)])"

definition shape_model :: "(shape_encoder, int list, shape_layer) UnetSegmentationModel" where
  "shape_model = \<lparr> encoder = shape_resnet18, decoder = [32, 64, 128, 256],
                    mask = [(''drop'', Drop 0), (''conv'', Conv 32 1)], full_size_mask = True \<rparr>"

definition shape_model_small ::
  "(shape_encoder, int list, shape_layer) UnetSegmentationModel" where
  "shape_model_small = shape_model\<lparr>full_size_mask := False\<rparr>"

subsection \<open>Notions used in the properties\<close>





text \<open>
  The shape the specification gives every factory: construct the backbone, patch its
  input channel count unless that is 3, and call the shared constructor. What varies is the
  backbone class, the keyword arguments its constructor gets (as a function of the
  factory's \<^verbatim>\<open>pretrained\<close>), the channel widths, the activation and the default dropout.
\<close>

definition factory_template ::
  "backbone \<Rightarrow> (bool \<Rightarrow> bool option \<times> int list option \<times> activation option) \<Rightarrow> int list
     \<Rightarrow> activation option \<Rightarrow> rat \<Rightarrow> ('t, 'e, 'd, 'l) factory" where
  "factory_template bb ctor_kwargs unet_channels act default_dropout L args =
     (let input_channels = default_arg 3 (arg_input_channels args);
          num_classes = default_arg 1 (arg_num_classes args);
          dropout = default_arg default_dropout (arg_dropout args);
          pretrained = default_arg True (arg_pretrained args)
      in
      case ctor_kwargs pretrained of (pretrained_kw, layers_kw, activation_kw) \<Rightarrow>
      bindM (construct_encoder L bb pretrained_kw layers_kw activation_kw) (\<lambda>enc.
      bindM (if input_channels \<noteq> 3 then call_change_input_channels L enc input_channels
             else returnM enc) (\<lambda>enc.
      UnetSegmentationModel_init L enc (ChList unet_channels) (Some num_classes) (Some dropout)
        None act)))"

section \<open>Properties\<close>

subsection \<open>Outcomes of the sequenced operations\<close>

lemma returnM_eq [simp]: "returnM v = (r, l) \<longleftrightarrow> r = Inr v \<and> l = []"
  by (auto simp: returnM_def)

lemma raiseM_eq [simp]: "raiseM e = (r, l) \<longleftrightarrow> r = Inl e \<and> l = []"
  by (auto simp: raiseM_def)

lemmas run_defs = bindM_def lib_call_def returnM_def raiseM_def default_arg_def Let_def

lemma assign_items_length [simp]: "length (assign_items writes cs) = length cs"
  unfolding assign_items_def by (induction writes arbitrary: cs) auto

subsection \<open>What \<^verbatim>\<open>__init__\<close> and \<^verbatim>\<open>forward\<close> do, step by step\<close>

lemma init_outcome:
  "UnetSegmentationModel_init L enc uc nc p fsm act =
     (case UNetDecoder L (channels L enc) uc
             (UnetBlock_partial (ABN_partial (default_arg ACT_RELU act))) UpsamplingNearest2d of
        Inl msg \<Rightarrow>
          (Inl (LibraryError msg),
           [(Call_UNetDecoder (channels L enc) uc
               (UnetBlock_partial (ABN_partial (default_arg ACT_RELU act)))
               UpsamplingNearest2d, False)])
      | Inr (dec, writes) \<Rightarrow>
          (case Dropout2d L (default_arg 0.25 p) of
             Inl msg \<Rightarrow>
               (Inl (LibraryError msg),
                [(Call_UNetDecoder (channels L enc) uc
                    (UnetBlock_partial (ABN_partial (default_arg ACT_RELU act)))
                    UpsamplingNearest2d, True),
                 (Call_Dropout2d (default_arg 0.25 p), False)])
           | Inr dl \<Rightarrow>
               (case unet_channels_after uc writes of
                  ChInt n \<Rightarrow>
                    (Inl TypeError,
                     [(Call_UNetDecoder (channels L enc) uc
                         (UnetBlock_partial (ABN_partial (default_arg ACT_RELU act)))
                         UpsamplingNearest2d, True),
                      (Call_Dropout2d (default_arg 0.25 p), True)])
                | ChList [] \<Rightarrow>
                    (Inl IndexError,
                     [(Call_UNetDecoder (channels L enc) uc
                         (UnetBlock_partial (ABN_partial (default_arg ACT_RELU act)))
                         UpsamplingNearest2d, True),
                      (Call_Dropout2d (default_arg 0.25 p), True)])
                | ChList (c0 # rest) \<Rightarrow>
                    (case conv1x1 L c0 (default_arg 1 nc) of
                       Inl msg \<Rightarrow>
                         (Inl (LibraryError msg),
                          [(Call_UNetDecoder (channels L enc) uc
                              (UnetBlock_partial (ABN_partial (default_arg ACT_RELU act)))
                              UpsamplingNearest2d, True),
                           (Call_Dropout2d (default_arg 0.25 p), True),
                           (Call_conv1x1 c0 (default_arg 1 nc), False)])
                     | Inr cl \<Rightarrow>
                         (Inr \<lparr> encoder = enc, decoder = dec,
                                mask = [(''drop'', dl), (''conv'', cl)],
                                full_size_mask = default_arg True fsm \<rparr>,
                          [(Call_UNetDecoder (channels L enc) uc
                              (UnetBlock_partial (ABN_partial (default_arg ACT_RELU act)))
                              UpsamplingNearest2d, True),
                           (Call_Dropout2d (default_arg 0.25 p), True),
                           (Call_conv1x1 c0 (default_arg 1 nc), True)])))))"
  unfolding UnetSegmentationModel_init_def Let_def
  by (simp add: bindM_def lib_call_def returnM_def raiseM_def
      split: sum.splits prod.splits channels_arg.splits list.splits)

lemma Sequential_two_outcome:
  "Sequential_forward L [(n1, l1), (n2, l2)] y =
     (case layer_forward L l1 y of
        Inl msg \<Rightarrow> (Inl (LibraryError msg), [(Call_layer_forward n1, False)])
      | Inr a \<Rightarrow>
          (case layer_forward L l2 a of
             Inl msg \<Rightarrow>
               (Inl (LibraryError msg),
                [(Call_layer_forward n1, True), (Call_layer_forward n2, False)])
           | Inr b \<Rightarrow>
               (Inr b, [(Call_layer_forward n1, True), (Call_layer_forward n2, True)])))"
  by (simp add: bindM_def lib_call_def returnM_def split: sum.splits)


lemma forward_outcome:
  "forward L key self x =
     (case encoder_forward L (encoder self) x of
        Inl msg \<Rightarrow> (Inl (LibraryError msg), [(Call_encoder_forward, False)])
      | Inr feats \<Rightarrow>
          (case decoder_forward L (decoder self) feats of
             Inl msg \<Rightarrow>
               (Inl (LibraryError msg),
                [(Call_encoder_forward, True), (Call_decoder_forward, False)])
           | Inr [] \<Rightarrow>
               (Inl IndexError, [(Call_encoder_forward, True), (Call_decoder_forward, True)])
           | Inr (y # ys) \<Rightarrow>
               (case Sequential_forward L (mask self) y of
                  (Inl e, hcalls) \<Rightarrow>
                    (Inl e,
                     [(Call_encoder_forward, True), (Call_decoder_forward, True)] @ hcalls)
                | (Inr h, hcalls) \<Rightarrow>
                    (if full_size_mask self
                     then (case interpolate L h (drop 2 (tensor_size L x)) Bilinear False of
                             Inl msg \<Rightarrow>
                               (Inl (LibraryError msg),
                                [(Call_encoder_forward, True), (Call_decoder_forward, True)] @
                                hcalls @
                                [(Call_interpolate (drop 2 (tensor_size L x)) Bilinear False,
                                  False)])
                           | Inr m \<Rightarrow>
                               (Inr (Map.empty(key \<mapsto> m)),
                                [(Call_encoder_forward, True), (Call_decoder_forward, True)] @
                                hcalls @
                                [(Call_interpolate (drop 2 (tensor_size L x)) Bilinear False,
                                  True)]))
                     else (Inr (Map.empty(key \<mapsto> h)),
                           [(Call_encoder_forward, True), (Call_decoder_forward, True)] @
                           hcalls)))))"
  unfolding forward_def Let_def
  by (simp add: bindM_def lib_call_def returnM_def raiseM_def
      split: sum.splits prod.splits list.splits)

lemma init_success:
  "UnetSegmentationModel_init L enc uc nc p fsm act = (Inr self, calls) \<longleftrightarrow>
     (\<exists>dec writes dl c0 rest cl.
        UNetDecoder L (channels L enc) uc
          (UnetBlock_partial (ABN_partial (default_arg ACT_RELU act))) UpsamplingNearest2d
          = Inr (dec, writes) \<and>
        Dropout2d L (default_arg 0.25 p) = Inr dl \<and>
        unet_channels_after uc writes = ChList (c0 # rest) \<and>
        conv1x1 L c0 (default_arg 1 nc) = Inr cl \<and>
        self = \<lparr> encoder = enc, decoder = dec, mask = [(''drop'', dl), (''conv'', cl)],
                 full_size_mask = default_arg True fsm \<rparr> \<and>
        calls = [(Call_UNetDecoder (channels L enc) uc
                    (UnetBlock_partial (ABN_partial (default_arg ACT_RELU act)))
                    UpsamplingNearest2d, True),
                 (Call_Dropout2d (default_arg 0.25 p), True),
                 (Call_conv1x1 c0 (default_arg 1 nc), True)])"
  unfolding init_outcome
  by (auto split: sum.splits prod.splits channels_arg.splits list.splits)

lemma unet_channels_after_list:
  assumes "unet_channels_after uc writes = ChList (c0 # rest)"
  shows "\<exists>c cs. uc = ChList (c # cs)"
proof (cases uc)
  case (ChInt n)
  with assms show ?thesis by simp
next
  case (ChList cs)
  with assms have "assign_items writes cs = c0 # rest" by simp
  then have "length cs = Suc (length rest)"
    by (metis assign_items_length length_Cons)
  with ChList show ?thesis by (cases cs) auto
qed


lemma lib_call_Inr [simp]: "lib_call c r = (Inr v, l) \<longleftrightarrow> r = Inr v \<and> l = [(c, True)]"
  by (auto simp: lib_call_def split: sum.splits)

lemma first_item_Inr [simp]:
  "first_item ys = (Inr y, l) \<longleftrightarrow> (\<exists>rest. ys = y # rest) \<and> l = []"
  by (cases ys) auto


subsection \<open>The shape-level model, run\<close>


subsection \<open>The output dictionary\<close>



subsection \<open>The optional upsampling\<close>







subsection \<open>The order of the forward pass\<close>

lemma init_shape_model:
  "UnetSegmentationModel_init shape_lib shape_resnet18 (ChList [32, 64, 128, 256]) None
     (Some 0) None None =
     (Inr shape_model,
      [(Call_UNetDecoder [64, 64, 128, 256, 512] (ChList [32, 64, 128, 256])
          (UnetBlock_partial (ABN_partial ACT_RELU)) UpsamplingNearest2d, True),
       (Call_Dropout2d 0, True), (Call_conv1x1 32 1, True)])"
  by (simp add: UnetSegmentationModel_init_def shape_model_def shape_resnet18_def shape_lib_def
      assign_items_def run_defs)

lemma init_shape_model_small:
  "UnetSegmentationModel_init shape_lib shape_resnet18 (ChList [32, 64, 128, 256]) None
     (Some 0) (Some False) None =
     (Inr shape_model_small,
      [(Call_UNetDecoder [64, 64, 128, 256, 512] (ChList [32, 64, 128, 256])
          (UnetBlock_partial (ABN_partial ACT_RELU)) UpsamplingNearest2d, True),
       (Call_Dropout2d 0, True), (Call_conv1x1 32 1, True)])"
  by (simp add: UnetSegmentationModel_init_def shape_model_small_def shape_model_def
      shape_resnet18_def shape_lib_def assign_items_def run_defs)

text \<open>
  C1. For a model built by \<^verbatim>\<open>__init__\<close>, whose mask head is the dropout layer \<open>dl\<close> followed by
  the 1x1 convolution \<open>cl\<close>, and every input \<open>x\<close>, \<^verbatim>\<open>forward\<close> does exactly this, in this
  order, ending at the first step that fails: it applies the encoder to \<open>x\<close>, the decoder
  to the encoder's output, takes the first element of the decoder's output, applies \<open>dl\<close>
  to it and \<open>cl\<close> to the result, and, if \<^verbatim>\<open>full_size_mask\<close> is set, interpolates the result
  to \<^verbatim>\<open>x.size()[2:]\<close>. The mask it returns is the outcome of the last step, with nothing
  else applied to it.
\<close>

theorem forward_order:
  assumes init: "UnetSegmentationModel_init L enc uc nc p fsm act = (Inr self, icalls)"
  shows "\<exists>dec dl cl c0.
           self = \<lparr> encoder = enc, decoder = dec, mask = [(''drop'', dl), (''conv'', cl)],
                    full_size_mask = default_arg True fsm \<rparr> \<and>
           Dropout2d L (default_arg 0.25 p) = Inr dl \<and>
           conv1x1 L c0 (default_arg 1 nc) = Inr cl \<and>
           (\<forall>key x.
              forward L key self x =
                (case encoder_forward L enc x of
                   Inl msg \<Rightarrow> (Inl (LibraryError msg), [(Call_encoder_forward, False)])
                 | Inr feats \<Rightarrow>
                     (case decoder_forward L dec feats of
                        Inl msg \<Rightarrow>
                          (Inl (LibraryError msg),
                           [(Call_encoder_forward, True), (Call_decoder_forward, False)])
                      | Inr [] \<Rightarrow>
                          (Inl IndexError,
                           [(Call_encoder_forward, True), (Call_decoder_forward, True)])
                      | Inr (y # ys) \<Rightarrow>
                          (case layer_forward L dl y of
                             Inl msg \<Rightarrow>
                               (Inl (LibraryError msg),
                                [(Call_encoder_forward, True), (Call_decoder_forward, True),
                                 (Call_layer_forward ''drop'', False)])
                           | Inr a \<Rightarrow>
                               (case layer_forward L cl a of
                                  Inl msg \<Rightarrow>
                                    (Inl (LibraryError msg),
                                     [(Call_encoder_forward, True),
                                      (Call_decoder_forward, True),
                                      (Call_layer_forward ''drop'', True),
                                      (Call_layer_forward ''conv'', False)])
                                | Inr b \<Rightarrow>
                                    (if default_arg True fsm
                                     then (case interpolate L b (drop 2 (tensor_size L x))
                                                  Bilinear False of
                                             Inl msg \<Rightarrow>
                                               (Inl (LibraryError msg),
                                                [(Call_encoder_forward, True),
                                                 (Call_decoder_forward, True),
                                                 (Call_layer_forward ''drop'', True),
                                                 (Call_layer_forward ''conv'', True),
                                                 (Call_interpolate
                                                    (drop 2 (tensor_size L x)) Bilinear
                                                    False, False)])
                                           | Inr m \<Rightarrow>
                                               (Inr (Map.empty(key \<mapsto> m)),
                                                [(Call_encoder_forward, True),
                                                 (Call_decoder_forward, True),
                                                 (Call_layer_forward ''drop'', True),
                                                 (Call_layer_forward ''conv'', True),
                                                 (Call_interpolate
                                                    (drop 2 (tensor_size L x)) Bilinear
                                                    False, True)]))
                                     else (Inr (Map.empty(key \<mapsto> b)),
                                           [(Call_encoder_forward, True),
                                            (Call_decoder_forward, True),
                                            (Call_layer_forward ''drop'', True),
                                            (Call_layer_forward ''conv'', True)])))))))"
proof -
  from init obtain dec writes dl c0 rest cl where
    i: "Dropout2d L (default_arg 0.25 p) = Inr dl"
       "conv1x1 L c0 (default_arg 1 nc) = Inr cl"
       "self = \<lparr> encoder = enc, decoder = dec, mask = [(''drop'', dl), (''conv'', cl)],
                 full_size_mask = default_arg True fsm \<rparr>"
    unfolding init_success by blast
  from i(3) have sel: "encoder self = enc" "decoder self = dec"
    "mask self = [(''drop'', dl), (''conv'', cl)]" "full_size_mask self = default_arg True fsm"
    by simp_all
  have "forward L key self x =
                (case encoder_forward L enc x of
                   Inl msg \<Rightarrow> (Inl (LibraryError msg), [(Call_encoder_forward, False)])
                 | Inr feats \<Rightarrow>
                     (case decoder_forward L dec feats of
                        Inl msg \<Rightarrow>
                          (Inl (LibraryError msg),
                           [(Call_encoder_forward, True), (Call_decoder_forward, False)])
                      | Inr [] \<Rightarrow>
                          (Inl IndexError,
                           [(Call_encoder_forward, True), (Call_decoder_forward, True)])
                      | Inr (y # ys) \<Rightarrow>
                          (case layer_forward L dl y of
                             Inl msg \<Rightarrow>
                               (Inl (LibraryError msg),
                                [(Call_encoder_forward, True), (Call_decoder_forward, True),
                                 (Call_layer_forward ''drop'', False)])
                           | Inr a \<Rightarrow>
                               (case layer_forward L cl a of
                                  Inl msg \<Rightarrow>
                                    (Inl (LibraryError msg),
                                     [(Call_encoder_forward, True),
                                      (Call_decoder_forward, True),
                                      (Call_layer_forward ''drop'', True),
                                      (Call_layer_forward ''conv'', False)])
                                | Inr b \<Rightarrow>
                                    (if default_arg True fsm
                                     then (case interpolate L b (drop 2 (tensor_size L x))
                                                  Bilinear False of
                                             Inl msg \<Rightarrow>
                                               (Inl (LibraryError msg),
                                                [(Call_encoder_forward, True),
                                                 (Call_decoder_forward, True),
                                                 (Call_layer_forward ''drop'', True),
                                                 (Call_layer_forward ''conv'', True),
                                                 (Call_interpolate
                                                    (drop 2 (tensor_size L x)) Bilinear
                                                    False, False)])
                                           | Inr m \<Rightarrow>
                                               (Inr (Map.empty(key \<mapsto> m)),
                                                [(Call_encoder_forward, True),
                                                 (Call_decoder_forward, True),
                                                 (Call_layer_forward ''drop'', True),
                                                 (Call_layer_forward ''conv'', True),
                                                 (Call_interpolate
                                                    (drop 2 (tensor_size L x)) Bilinear
                                                    False, True)]))
                                     else (Inr (Map.empty(key \<mapsto> b)),
                                           [(Call_encoder_forward, True),
                                            (Call_decoder_forward, True),
                                            (Call_layer_forward ''drop'', True),
                                            (Call_layer_forward ''conv'', True)]))))))"
    for key x
    unfolding forward_outcome sel Sequential_two_outcome
    by (simp split: sum.splits list.splits)
  with i show ?thesis by blast
qed

theorem forward_order_witness:
  "UnetSegmentationModel_init shape_lib shape_resnet18 (ChList [32, 64, 128, 256]) None
     (Some 0) None None =
     (Inr shape_model,
      [(Call_UNetDecoder [64, 64, 128, 256, 512] (ChList [32, 64, 128, 256])
          (UnetBlock_partial (ABN_partial ACT_RELU)) UpsamplingNearest2d, True),
       (Call_Dropout2d 0, True), (Call_conv1x1 32 1, True)]) \<and>
   forward shape_lib ''mask'' shape_model [2, 3, 512, 512] =
     (Inr (Map.empty(''mask'' \<mapsto> [2, 1, 512, 512])),
      [(Call_encoder_forward, True), (Call_decoder_forward, True),
       (Call_layer_forward ''drop'', True), (Call_layer_forward ''conv'', True),
       (Call_interpolate [512, 512] Bilinear False, True)]) \<and>
   forward shape_lib ''mask'' shape_model [2, 4, 512, 512] =
     (Inl (LibraryError ''wrong number of input channels''), [(Call_encoder_forward, False)]) \<and>
   forward shape_lib ''mask'' shape_model [2, 3, 512] =
     (Inl (LibraryError ''expected a 4-D input''), [(Call_encoder_forward, False)]) \<and>
   UnetSegmentationModel_init shape_lib shape_resnet18 (ChList [32, 64, 128, 256]) None
     (Some 0) (Some False) None =
     (Inr shape_model_small,
      [(Call_UNetDecoder [64, 64, 128, 256, 512] (ChList [32, 64, 128, 256])
          (UnetBlock_partial (ABN_partial ACT_RELU)) UpsamplingNearest2d, True),
       (Call_Dropout2d 0, True), (Call_conv1x1 32 1, True)]) \<and>
   forward shape_lib ''mask'' shape_model_small [2, 3, 512, 512] =
     (Inr (Map.empty(''mask'' \<mapsto> [2, 1, 256, 256])),
      [(Call_encoder_forward, True), (Call_decoder_forward, True),
       (Call_layer_forward ''drop'', True), (Call_layer_forward ''conv'', True)])"
proof -
  from forward_order [OF init_shape_model] obtain dec dl cl c0 where
    m: "shape_model =
          \<lparr> encoder = shape_resnet18, decoder = dec, mask = [(''drop'', dl), (''conv'', cl)],
            full_size_mask = default_arg True None \<rparr>"
    and eq: "\<And>key x. forward shape_lib key shape_model x =
                (case encoder_forward shape_lib shape_resnet18 x of
                   Inl msg \<Rightarrow> (Inl (LibraryError msg), [(Call_encoder_forward, False)])
                 | Inr feats \<Rightarrow>
                     (case decoder_forward shape_lib dec feats of
                        Inl msg \<Rightarrow>
                          (Inl (LibraryError msg),
                           [(Call_encoder_forward, True), (Call_decoder_forward, False)])
                      | Inr [] \<Rightarrow>
                          (Inl IndexError,
                           [(Call_encoder_forward, True), (Call_decoder_forward, True)])
                      | Inr (y # ys) \<Rightarrow>
                          (case layer_forward shape_lib dl y of
                             Inl msg \<Rightarrow>
                               (Inl (LibraryError msg),
                                [(Call_encoder_forward, True), (Call_decoder_forward, True),
                                 (Call_layer_forward ''drop'', False)])
                           | Inr a \<Rightarrow>
                               (case layer_forward shape_lib cl a of
                                  Inl msg \<Rightarrow>
                                    (Inl (LibraryError msg),
                                     [(Call_encoder_forward, True),
                                      (Call_decoder_forward, True),
                                      (Call_layer_forward ''drop'', True),
                                      (Call_layer_forward ''conv'', False)])
                                | Inr b \<Rightarrow>
                                    (if default_arg True None
                                     then (case interpolate shape_lib b (drop 2 (tensor_size shape_lib x))
                                                  Bilinear False of
                                             Inl msg \<Rightarrow>
                                               (Inl (LibraryError msg),
                                                [(Call_encoder_forward, True),
                                                 (Call_decoder_forward, True),
                                                 (Call_layer_forward ''drop'', True),
                                                 (Call_layer_forward ''conv'', True),
                                                 (Call_interpolate
                                                    (drop 2 (tensor_size shape_lib x)) Bilinear
                                                    False, False)])
                                           | Inr m \<Rightarrow>
                                               (Inr (Map.empty(key \<mapsto> m)),
                                                [(Call_encoder_forward, True),
                                                 (Call_decoder_forward, True),
                                                 (Call_layer_forward ''drop'', True),
                                                 (Call_layer_forward ''conv'', True),
                                                 (Call_interpolate
                                                    (drop 2 (tensor_size shape_lib x)) Bilinear
                                                    False, True)]))
                                     else (Inr (Map.empty(key \<mapsto> b)),
                                           [(Call_encoder_forward, True),
                                            (Call_decoder_forward, True),
                                            (Call_layer_forward ''drop'', True),
                                            (Call_layer_forward ''conv'', True)]))))))"
    by blast
  from m have d: "dec = [32, 64, 128, 256]" "dl = Drop 0" "cl = Conv 32 1"
    by (simp_all add: shape_model_def)
  have full: "forward shape_lib ''mask'' shape_model [2, 3, 512, 512] =
     (Inr (Map.empty(''mask'' \<mapsto> [2, 1, 512, 512])),
      [(Call_encoder_forward, True), (Call_decoder_forward, True),
       (Call_layer_forward ''drop'', True), (Call_layer_forward ''conv'', True),
       (Call_interpolate [512, 512] Bilinear False, True)])"
    unfolding eq d
    by (simp add: shape_lib_def shape_resnet18_def shape_decoder_forward_def default_arg_def)
  have wrong: "forward shape_lib ''mask'' shape_model [2, 4, 512, 512] =
     (Inl (LibraryError ''wrong number of input channels''), [(Call_encoder_forward, False)])"
    unfolding eq d
    by (simp add: shape_lib_def shape_resnet18_def)
  have flat: "forward shape_lib ''mask'' shape_model [2, 3, 512] =
     (Inl (LibraryError ''expected a 4-D input''), [(Call_encoder_forward, False)])"
    unfolding eq d
    by (simp add: shape_lib_def shape_resnet18_def)
  from forward_order [OF init_shape_model_small] obtain dec' dl' cl' c0' where
    m': "shape_model_small =
          \<lparr> encoder = shape_resnet18, decoder = dec', mask = [(''drop'', dl'), (''conv'', cl')],
            full_size_mask = default_arg True (Some False) \<rparr>"
    and eq': "\<And>key x. forward shape_lib key shape_model_small x =
                (case encoder_forward shape_lib shape_resnet18 x of
                   Inl msg \<Rightarrow> (Inl (LibraryError msg), [(Call_encoder_forward, False)])
                 | Inr feats \<Rightarrow>
                     (case decoder_forward shape_lib dec' feats of
                        Inl msg \<Rightarrow>
                          (Inl (LibraryError msg),
                           [(Call_encoder_forward, True), (Call_decoder_forward, False)])
                      | Inr [] \<Rightarrow>
                          (Inl IndexError,
                           [(Call_encoder_forward, True), (Call_decoder_forward, True)])
                      | Inr (y # ys) \<Rightarrow>
                          (case layer_forward shape_lib dl' y of
                             Inl msg \<Rightarrow>
                               (Inl (LibraryError msg),
                                [(Call_encoder_forward, True), (Call_decoder_forward, True),
                                 (Call_layer_forward ''drop'', False)])
                           | Inr a \<Rightarrow>
                               (case layer_forward shape_lib cl' a of
                                  Inl msg \<Rightarrow>
                                    (Inl (LibraryError msg),
                                     [(Call_encoder_forward, True),
                                      (Call_decoder_forward, True),
                                      (Call_layer_forward ''drop'', True),
                                      (Call_layer_forward ''conv'', False)])
                                | Inr b \<Rightarrow>
                                    (if default_arg True (Some False)
                                     then (case interpolate shape_lib b (drop 2 (tensor_size shape_lib x))
                                                  Bilinear False of
                                             Inl msg \<Rightarrow>
                                               (Inl (LibraryError msg),
                                                [(Call_encoder_forward, True),
                                                 (Call_decoder_forward, True),
                                                 (Call_layer_forward ''drop'', True),
                                                 (Call_layer_forward ''conv'', True),
                                                 (Call_interpolate
                                                    (drop 2 (tensor_size shape_lib x)) Bilinear
                                                    False, False)])
                                           | Inr m \<Rightarrow>
                                               (Inr (Map.empty(key \<mapsto> m)),
                                                [(Call_encoder_forward, True),
                                                 (Call_decoder_forward, True),
                                                 (Call_layer_forward ''drop'', True),
                                                 (Call_layer_forward ''conv'', True),
                                                 (Call_interpolate
                                                    (drop 2 (tensor_size shape_lib x)) Bilinear
                                                    False, True)]))
                                     else (Inr (Map.empty(key \<mapsto> b)),
                                           [(Call_encoder_forward, True),
                                            (Call_decoder_forward, True),
                                            (Call_layer_forward ''drop'', True),
                                            (Call_layer_forward ''conv'', True)]))))))"
    by blast
  from m' have d': "dec' = [32, 64, 128, 256]" "dl' = Drop 0" "cl' = Conv 32 1"
    by (simp_all add: shape_model_small_def shape_model_def)
  have small: "forward shape_lib ''mask'' shape_model_small [2, 3, 512, 512] =
     (Inr (Map.empty(''mask'' \<mapsto> [2, 1, 256, 256])),
      [(Call_encoder_forward, True), (Call_decoder_forward, True),
       (Call_layer_forward ''drop'', True), (Call_layer_forward ''conv'', True)])"
    unfolding eq' d'
    by (simp add: shape_lib_def shape_resnet18_def shape_decoder_forward_def default_arg_def)
  from init_shape_model full wrong flat init_shape_model_small small
  show ?thesis by blast
qed

subsection \<open>The mask head\<close>





subsection \<open>The factories as instances of the template\<close>

lemma factories_template:
  "resnet18_unet32 = factory_template Resnet18Encoder (\<lambda>p. (Some p, Some [0, 1, 2, 3, 4], None)) [32, 64, 128, 256] None 0"
  "resnet34_unet32 = factory_template Resnet34Encoder (\<lambda>p. (Some p, Some [0, 1, 2, 3, 4], None)) [32, 64, 128, 256] None 0"
  "resnet50_unet32 = factory_template Resnet50Encoder (\<lambda>p. (Some p, Some [0, 1, 2, 3, 4], None)) [32, 64, 128, 256] None 0"
  "resnet101_unet64 = factory_template Resnet101Encoder (\<lambda>p. (Some p, Some [0, 1, 2, 3, 4], None)) [64, 128, 256, 512] None 0.5"
  "resnet152_unet32 = factory_template Resnet152Encoder (\<lambda>p. (Some p, Some [0, 1, 2, 3, 4], None)) [32, 64, 128, 256] None 0"
  "densenet121_unet32 = factory_template DenseNet121Encoder (\<lambda>p. (Some p, Some [0, 1, 2, 3, 4], None)) [32, 64, 128, 256] None 0"
  "densenet161_unet32 = factory_template DenseNet161Encoder (\<lambda>p. (Some p, Some [0, 1, 2, 3, 4], None)) [32, 64, 128, 256] None 0"
  "densenet169_unet32 = factory_template DenseNet169Encoder (\<lambda>p. (Some p, Some [0, 1, 2, 3, 4], None)) [32, 64, 128, 256] None 0"
  "densenet201_unet32 = factory_template DenseNet201Encoder (\<lambda>p. (Some p, Some [0, 1, 2, 3, 4], None)) [32, 64, 128, 256] None 0"
  "hrnet18_unet32 = factory_template HRNetV2Encoder18 (\<lambda>p. (Some p, None, None)) [32, 64, 128, 256] None 0"
  "hrnet34_unet32 = factory_template HRNetV2Encoder34 (\<lambda>p. (Some p, None, None)) [32, 64, 128, 256] None 0"
  "hrnet48_unet32 = factory_template HRNetV2Encoder48 (\<lambda>p. (Some p, None, None)) [32, 64, 128, 256] None 0"
  "b0_unet32 = factory_template EfficientNetB0Encoder (\<lambda>p. (None, None, None)) [32, 64, 128] (Some ACT_SWISH) 0"
  "b5_unet32 = factory_template EfficientNetB5Encoder (\<lambda>p. (None, None, None)) [32, 64, 128] (Some ACT_SWISH) 0"
  "b5_unet32_relu = factory_template EfficientNetB5Encoder (\<lambda>p. (None, None, Some ACT_RELU)) [32, 64, 128] (Some ACT_RELU) 0"
  by (intro ext, simp add: factory_template_def resnet18_unet32_def resnet34_unet32_def
      resnet50_unet32_def resnet101_unet64_def resnet152_unet32_def densenet121_unet32_def
      densenet161_unet32_def densenet169_unet32_def densenet201_unet32_def hrnet18_unet32_def
      hrnet34_unet32_def hrnet48_unet32_def b0_unet32_def b5_unet32_def b5_unet32_relu_def)+

lemma mod_functions_unet_module:
  "mod_functions unet_module =
     [(''resnet18_unet32'', resnet18_unet32), (''resnet34_unet32'', resnet34_unet32),
      (''resnet50_unet32'', resnet50_unet32), (''resnet101_unet64'', resnet101_unet64),
      (''resnet152_unet32'', resnet152_unet32), (''densenet121_unet32'', densenet121_unet32),
      (''densenet161_unet32'', densenet161_unet32), (''densenet169_unet32'', densenet169_unet32),
      (''densenet201_unet32'', densenet201_unet32), (''hrnet18_unet32'', hrnet18_unet32),
      (''hrnet34_unet32'', hrnet34_unet32), (''hrnet48_unet32'', hrnet48_unet32),
      (''b0_unet32'', b0_unet32), (''b5_unet32'', b5_unet32),
      (''b5_unet32_relu'', b5_unet32_relu)]"
  by (simp add: unet_module_def exec_module_def unet_module_body_def Model_def)

lemma mod_registry_unet_module:
  "mod_registry unet_module =
     [(''resnet18_unet32'', resnet18_unet32), (''resnet34_unet32'', resnet34_unet32),
      (''resnet50_unet32'', resnet50_unet32), (''resnet101_unet64'', resnet101_unet64),
      (''resnet152_unet32'', resnet152_unet32), (''densenet121_unet32'', densenet121_unet32),
      (''densenet161_unet32'', densenet161_unet32), (''densenet169_unet32'', densenet169_unet32),
      (''densenet201_unet32'', densenet201_unet32), (''hrnet18_unet32'', hrnet18_unet32),
      (''hrnet34_unet32'', hrnet34_unet32), (''hrnet48_unet32'', hrnet48_unet32),
      (''b0_unet32'', b0_unet32), (''b5_unet32'', b5_unet32),
      (''b5_unet32_relu'', b5_unet32_relu)]"
  by (simp add: unet_module_def exec_module_def unet_module_body_def Model_def)

lemma module_factory_is_template:
  assumes "(name, f) \<in> set (mod_functions unet_module)"
  shows "\<exists>bb kw c cs act d. f = factory_template bb kw (c # cs) act d"
  using assms unfolding mod_functions_unet_module factories_template
  by (simp, blast)

subsection \<open>The outcome of a factory\<close>

lemma template_outcome:
  "factory_template bb kw ch act d L args =
     (case kw (default_arg True (arg_pretrained args)) of
        (pk, lk, ak) \<Rightarrow>
          (case new_encoder L bb pk lk ak of
             Inl msg \<Rightarrow> (Inl (LibraryError msg), [(Call_new_encoder bb pk lk ak, False)])
           | Inr enc0 \<Rightarrow>
               if default_arg 3 (arg_input_channels args) = 3
               then (case UnetSegmentationModel_init L enc0 (ChList ch)
                            (Some (default_arg 1 (arg_num_classes args)))
                            (Some (default_arg d (arg_dropout args))) None act of
                       (r, icalls) \<Rightarrow> (r, (Call_new_encoder bb pk lk ak, True) # icalls))
               else (case change_input_channels L enc0
                            (default_arg 3 (arg_input_channels args)) of
                       Inl msg \<Rightarrow>
                         (Inl (LibraryError msg),
                          [(Call_new_encoder bb pk lk ak, True),
                           (Call_change_input_channels
                              (default_arg 3 (arg_input_channels args)), False)])
                     | Inr enc1 \<Rightarrow>
                         (case UnetSegmentationModel_init L enc1 (ChList ch)
                                 (Some (default_arg 1 (arg_num_classes args)))
                                 (Some (default_arg d (arg_dropout args))) None act of
                            (r, icalls) \<Rightarrow>
                              (r, (Call_new_encoder bb pk lk ak, True) #
                                  (Call_change_input_channels
                                     (default_arg 3 (arg_input_channels args)), True) #
                                  icalls)))))"
  unfolding factory_template_def construct_encoder_def call_change_input_channels_def Let_def
  by (simp add: bindM_def lib_call_def returnM_def split: sum.splits prod.splits)

lemma init_calls:
  assumes "UnetSegmentationModel_init L enc uc nc p fsm act = (r, calls)"
      and "(c, ok) \<in> set calls"
  shows "(\<exists>fm ub up. c = Call_UNetDecoder fm uc ub up) \<or> (\<exists>q. c = Call_Dropout2d q) \<or>
         (\<exists>ci co. c = Call_conv1x1 ci co)"
  using assms unfolding init_outcome
  by (auto split: sum.splits prod.splits channels_arg.splits list.splits)

lemma assign_items_Cons_not_Nil [simp]: "assign_items writes (c # cs) \<noteq> []"
proof
  assume "assign_items writes (c # cs) = []"
  then have "length (assign_items writes (c # cs)) = 0" by simp
  then show False by simp
qed

lemma init_list_no_subscript_error:
  assumes "UnetSegmentationModel_init L enc (ChList (c # cs)) nc p fsm act = (r, calls)"
  shows "r \<noteq> Inl TypeError \<and> r \<noteq> Inl IndexError"
  using assms unfolding init_outcome
  by (auto split: sum.splits prod.splits channels_arg.splits list.splits)

lemma template_no_subscript_error:
  assumes "factory_template bb kw (c # cs) act d L args = (r, calls)"
  shows "r \<noteq> Inl TypeError \<and> r \<noteq> Inl IndexError"
  using assms unfolding template_outcome
  by (auto split: prod.splits sum.splits if_splits dest: init_list_no_subscript_error)

lemma template_decoder_features:
  assumes "factory_template bb kw ch act d L args = (r, calls)"
      and "(Call_UNetDecoder fm uc ub up, ok) \<in> set calls"
  shows "uc = ChList ch"
  using assms unfolding template_outcome
  by (auto split: prod.splits sum.splits if_splits dest: init_calls)

lemma template_change_call:
  assumes "factory_template bb kw ch act d L args = (r, calls)"
      and "kw (default_arg True (arg_pretrained args)) = (pk, lk, ak)"
      and "new_encoder L bb pk lk ak = Inr enc0"
  shows "(\<exists>n ok. (Call_change_input_channels n, ok) \<in> set calls) \<longleftrightarrow>
           default_arg 3 (arg_input_channels args) \<noteq> 3"
proof (cases "default_arg 3 (arg_input_channels args) = 3")
  case True
  with assms show ?thesis
    unfolding template_outcome
    by (auto split: prod.splits dest: init_calls)
next
  case False
  let ?ic = "default_arg 3 (arg_input_channels args)"
  from assms False have "\<exists>ok. (Call_change_input_channels ?ic, ok) \<in> set calls"
    unfolding template_outcome
    by (cases "change_input_channels L enc0 ?ic") (auto split: prod.splits)
  with False show ?thesis by blast
qed

subsection \<open>The shape-level factories, run\<close>

lemma resnet18_default_run:
  "resnet18_unet32 shape_lib default_args =
     (Inr shape_model,
      [(Call_new_encoder Resnet18Encoder (Some True) (Some [0, 1, 2, 3, 4]) None, True),
       (Call_UNetDecoder [64, 64, 128, 256, 512] (ChList [32, 64, 128, 256])
          (UnetBlock_partial (ABN_partial ACT_RELU)) UpsamplingNearest2d, True),
       (Call_Dropout2d 0, True), (Call_conv1x1 32 1, True)])"
  by (simp add: resnet18_unet32_def default_args_def construct_encoder_def
      UnetSegmentationModel_init_def shape_model_def shape_resnet18_def shape_lib_def
      shape_new_encoder_def assign_items_def run_defs)

lemma resnet18_four_channels_run:
  "resnet18_unet32 shape_lib (default_args\<lparr>arg_input_channels := Some 4\<rparr>) =
     (Inr (shape_model
             \<lparr>encoder := (Resnet18Encoder, 4,
                           [(64, 2), (64, 4), (128, 8), (256, 16), (512, 32)])\<rparr>),
      [(Call_new_encoder Resnet18Encoder (Some True) (Some [0, 1, 2, 3, 4]) None, True),
       (Call_change_input_channels 4, True),
       (Call_UNetDecoder [64, 64, 128, 256, 512] (ChList [32, 64, 128, 256])
          (UnetBlock_partial (ABN_partial ACT_RELU)) UpsamplingNearest2d, True),
       (Call_Dropout2d 0, True), (Call_conv1x1 32 1, True)])"
  by (simp add: resnet18_unet32_def default_args_def construct_encoder_def
      call_change_input_channels_def UnetSegmentationModel_init_def shape_model_def
      shape_resnet18_def shape_lib_def shape_new_encoder_def assign_items_def run_defs)

lemma resnet18_no_channels_run:
  "resnet18_unet32 shape_lib (default_args\<lparr>arg_input_channels := Some 0\<rparr>) =
     (Inl (LibraryError ''no input channels''),
      [(Call_new_encoder Resnet18Encoder (Some True) (Some [0, 1, 2, 3, 4]) None, True),
       (Call_change_input_channels 0, False)])"
  by (simp add: resnet18_unet32_def default_args_def construct_encoder_def
      call_change_input_channels_def shape_lib_def shape_new_encoder_def run_defs)

lemma resnet18_in_module:
  "(''resnet18_unet32'', resnet18_unet32) \<in> set (mod_functions unet_module)"
  by (simp add: mod_functions_unet_module)

subsection \<open>The input channel count\<close>

text \<open>
  C5. Every factory of the module does exactly this, for every library and every value of
  \<^verbatim>\<open>input_channels\<close>. It constructs its backbone; if that fails, so does the factory. If
  \<^verbatim>\<open>input_channels\<close> is 3, it calls \<^verbatim>\<open>UnetSegmentationModel\<close> on the encoder exactly as
  constructed, and the outcome of that call is the factory's outcome. Otherwise it calls
  \<^verbatim>\<open>change_input_channels\<close> with \<^verbatim>\<open>input_channels\<close> on the encoder just constructed, fails
  if that fails, and else calls \<^verbatim>\<open>UnetSegmentationModel\<close> on the patched encoder. So, once
  the backbone is constructed, \<^verbatim>\<open>change_input_channels\<close> is among the factory's library
  calls if and only if \<^verbatim>\<open>input_channels\<close> differs from 3.
\<close>

theorem factories_patch_input_channels:
  assumes "(name, f :: ('t, 'e, 'd, 'l) factory) \<in> set (mod_functions unet_module)"
  shows "\<exists>bb kw ch act d. \<forall>L args.
           (case kw (default_arg True (arg_pretrained args)) of
              (pk, lk, ak) \<Rightarrow>
                f L args =
                  (case new_encoder L bb pk lk ak of
                     Inl msg \<Rightarrow>
                       (Inl (LibraryError msg), [(Call_new_encoder bb pk lk ak, False)])
                   | Inr enc0 \<Rightarrow>
                       if default_arg 3 (arg_input_channels args) = 3
                       then (case UnetSegmentationModel_init L enc0 (ChList ch)
                                    (Some (default_arg 1 (arg_num_classes args)))
                                    (Some (default_arg d (arg_dropout args))) None act of
                               (r, icalls) \<Rightarrow>
                                 (r, (Call_new_encoder bb pk lk ak, True) # icalls))
                       else (case change_input_channels L enc0
                                    (default_arg 3 (arg_input_channels args)) of
                               Inl msg \<Rightarrow>
                                 (Inl (LibraryError msg),
                                  [(Call_new_encoder bb pk lk ak, True),
                                   (Call_change_input_channels
                                      (default_arg 3 (arg_input_channels args)), False)])
                             | Inr enc1 \<Rightarrow>
                                 (case UnetSegmentationModel_init L enc1 (ChList ch)
                                         (Some (default_arg 1 (arg_num_classes args)))
                                         (Some (default_arg d (arg_dropout args))) None act of
                                    (r, icalls) \<Rightarrow>
                                      (r, (Call_new_encoder bb pk lk ak, True) #
                                          (Call_change_input_channels
                                             (default_arg 3 (arg_input_channels args)),
                                           True) #
                                          icalls)))) \<and>
                (\<forall>enc0. new_encoder L bb pk lk ak = Inr enc0 \<longrightarrow>
                   ((\<exists>n ok. (Call_change_input_channels n, ok) \<in> set (snd (f L args))) \<longleftrightarrow>
                      default_arg 3 (arg_input_channels args) \<noteq> 3)))"
proof -
  from module_factory_is_template [OF assms] obtain bb kw c cs act d where
    f: "f = factory_template bb kw (c # cs) act d" by blast
  have "case kw (default_arg True (arg_pretrained args)) of
              (pk, lk, ak) \<Rightarrow>
                f L args =
                  (case new_encoder L bb pk lk ak of
                     Inl msg \<Rightarrow>
                       (Inl (LibraryError msg), [(Call_new_encoder bb pk lk ak, False)])
                   | Inr enc0 \<Rightarrow>
                       if default_arg 3 (arg_input_channels args) = 3
                       then (case UnetSegmentationModel_init L enc0 (ChList (c # cs))
                                    (Some (default_arg 1 (arg_num_classes args)))
                                    (Some (default_arg d (arg_dropout args))) None act of
                               (r, icalls) \<Rightarrow>
                                 (r, (Call_new_encoder bb pk lk ak, True) # icalls))
                       else (case change_input_channels L enc0
                                    (default_arg 3 (arg_input_channels args)) of
                               Inl msg \<Rightarrow>
                                 (Inl (LibraryError msg),
                                  [(Call_new_encoder bb pk lk ak, True),
                                   (Call_change_input_channels
                                      (default_arg 3 (arg_input_channels args)), False)])
                             | Inr enc1 \<Rightarrow>
                                 (case UnetSegmentationModel_init L enc1 (ChList (c # cs))
                                         (Some (default_arg 1 (arg_num_classes args)))
                                         (Some (default_arg d (arg_dropout args))) None act of
                                    (r, icalls) \<Rightarrow>
                                      (r, (Call_new_encoder bb pk lk ak, True) #
                                          (Call_change_input_channels
                                             (default_arg 3 (arg_input_channels args)),
                                           True) #
                                          icalls)))) \<and>
                (\<forall>enc0. new_encoder L bb pk lk ak = Inr enc0 \<longrightarrow>
                   ((\<exists>n ok. (Call_change_input_channels n, ok) \<in> set (snd (f L args))) \<longleftrightarrow>
                      default_arg 3 (arg_input_channels args) \<noteq> 3))"
    for L args
  proof (cases "kw (default_arg True (arg_pretrained args))")
    case (fields pk lk ak)
    have eq: "f L args =
                  (case new_encoder L bb pk lk ak of
                     Inl msg \<Rightarrow>
                       (Inl (LibraryError msg), [(Call_new_encoder bb pk lk ak, False)])
                   | Inr enc0 \<Rightarrow>
                       if default_arg 3 (arg_input_channels args) = 3
                       then (case UnetSegmentationModel_init L enc0 (ChList (c # cs))
                                    (Some (default_arg 1 (arg_num_classes args)))
                                    (Some (default_arg d (arg_dropout args))) None act of
                               (r, icalls) \<Rightarrow>
                                 (r, (Call_new_encoder bb pk lk ak, True) # icalls))
                       else (case change_input_channels L enc0
                                    (default_arg 3 (arg_input_channels args)) of
                               Inl msg \<Rightarrow>
                                 (Inl (LibraryError msg),
                                  [(Call_new_encoder bb pk lk ak, True),
                                   (Call_change_input_channels
                                      (default_arg 3 (arg_input_channels args)), False)])
                             | Inr enc1 \<Rightarrow>
                                 (case UnetSegmentationModel_init L enc1 (ChList (c # cs))
                                         (Some (default_arg 1 (arg_num_classes args)))
                                         (Some (default_arg d (arg_dropout args))) None act of
                                    (r, icalls) \<Rightarrow>
                                      (r, (Call_new_encoder bb pk lk ak, True) #
                                          (Call_change_input_channels
                                             (default_arg 3 (arg_input_channels args)),
                                           True) #
                                          icalls))))"
      unfolding f template_outcome fields by simp
    have chg: "(\<exists>n ok. (Call_change_input_channels n, ok) \<in> set (snd (f L args))) \<longleftrightarrow>
            default_arg 3 (arg_input_channels args) \<noteq> 3"
      if "new_encoder L bb pk lk ak = Inr enc0" for enc0
    proof -
      have run: "factory_template bb kw (c # cs) act d L args = (fst (f L args), snd (f L args))"
        using f by simp
      from template_change_call [OF run fields that] show ?thesis .
    qed
    from eq chg show ?thesis unfolding fields prod.case by blast
  qed
  then show ?thesis by blast
qed

theorem factories_patch_input_channels_witness:
  "(''resnet18_unet32'', resnet18_unet32) \<in> set (mod_functions unet_module) \<and>
   new_encoder shape_lib Resnet18Encoder (Some True) (Some [0, 1, 2, 3, 4]) None
     = Inr shape_resnet18 \<and>
   UnetSegmentationModel_init shape_lib shape_resnet18 (ChList [32, 64, 128, 256]) (Some 1)
     (Some 0) None None =
     (Inr shape_model,
      [(Call_UNetDecoder [64, 64, 128, 256, 512] (ChList [32, 64, 128, 256])
          (UnetBlock_partial (ABN_partial ACT_RELU)) UpsamplingNearest2d, True),
       (Call_Dropout2d 0, True), (Call_conv1x1 32 1, True)]) \<and>
   resnet18_unet32 shape_lib default_args =
     (Inr shape_model,
      [(Call_new_encoder Resnet18Encoder (Some True) (Some [0, 1, 2, 3, 4]) None, True),
       (Call_UNetDecoder [64, 64, 128, 256, 512] (ChList [32, 64, 128, 256])
          (UnetBlock_partial (ABN_partial ACT_RELU)) UpsamplingNearest2d, True),
       (Call_Dropout2d 0, True), (Call_conv1x1 32 1, True)]) \<and>
   change_input_channels shape_lib shape_resnet18 4 =
     Inr (Resnet18Encoder, 4, [(64, 2), (64, 4), (128, 8), (256, 16), (512, 32)]) \<and>
   resnet18_unet32 shape_lib (default_args\<lparr>arg_input_channels := Some 4\<rparr>) =
     (Inr (shape_model
             \<lparr>encoder := (Resnet18Encoder, 4,
                           [(64, 2), (64, 4), (128, 8), (256, 16), (512, 32)])\<rparr>),
      [(Call_new_encoder Resnet18Encoder (Some True) (Some [0, 1, 2, 3, 4]) None, True),
       (Call_change_input_channels 4, True),
       (Call_UNetDecoder [64, 64, 128, 256, 512] (ChList [32, 64, 128, 256])
          (UnetBlock_partial (ABN_partial ACT_RELU)) UpsamplingNearest2d, True),
       (Call_Dropout2d 0, True), (Call_conv1x1 32 1, True)]) \<and>
   change_input_channels shape_lib shape_resnet18 0 = Inl ''no input channels'' \<and>
   resnet18_unet32 shape_lib (default_args\<lparr>arg_input_channels := Some 0\<rparr>) =
     (Inl (LibraryError ''no input channels''),
      [(Call_new_encoder Resnet18Encoder (Some True) (Some [0, 1, 2, 3, 4]) None, True),
       (Call_change_input_channels 0, False)])"
proof -
  have new: "new_encoder shape_lib Resnet18Encoder (Some True) (Some [0, 1, 2, 3, 4]) None
     = Inr shape_resnet18"
    by (simp add: shape_lib_def shape_new_encoder_def shape_resnet18_def default_arg_def)
  have init: "UnetSegmentationModel_init shape_lib shape_resnet18 (ChList [32, 64, 128, 256])
     (Some 1) (Some 0) None None =
     (Inr shape_model,
      [(Call_UNetDecoder [64, 64, 128, 256, 512] (ChList [32, 64, 128, 256])
          (UnetBlock_partial (ABN_partial ACT_RELU)) UpsamplingNearest2d, True),
       (Call_Dropout2d 0, True), (Call_conv1x1 32 1, True)])"
    by (simp add: UnetSegmentationModel_init_def shape_model_def shape_resnet18_def
        shape_lib_def assign_items_def run_defs)
  have four: "change_input_channels shape_lib shape_resnet18 4 =
     Inr (Resnet18Encoder, 4, [(64, 2), (64, 4), (128, 8), (256, 16), (512, 32)])"
    by (simp add: shape_lib_def shape_resnet18_def)
  have none: "change_input_channels shape_lib shape_resnet18 0 = Inl ''no input channels''"
    by (simp add: shape_lib_def shape_resnet18_def)
  from factories_patch_input_channels [OF resnet18_in_module] resnet18_in_module new init
    resnet18_default_run four resnet18_four_channels_run none resnet18_no_channels_run
  show ?thesis by blast
qed

subsection \<open>The factories and their template\<close>

text \<open>
  C4, as the code has it. Every factory is an instance of the one template
  \<open>factory_template\<close>; two factories differ only in the backbone class, in the keyword
  arguments given to the backbone's constructor, and in the channel widths, the activation
  and the default dropout passed on. The twelve ResNet, DenseNet and HRNet factories give
  their \<^verbatim>\<open>pretrained\<close> parameter to the backbone's constructor.
\<close>

theorem factories_share_template:
  "(resnet18_unet32 :: ('t, 'e, 'd, 'l) factory) =
     factory_template Resnet18Encoder (\<lambda>p. (Some p, Some [0, 1, 2, 3, 4], None))
       [32, 64, 128, 256] None 0 \<and>
   (resnet34_unet32 :: ('t, 'e, 'd, 'l) factory) =
     factory_template Resnet34Encoder (\<lambda>p. (Some p, Some [0, 1, 2, 3, 4], None))
       [32, 64, 128, 256] None 0 \<and>
   (resnet50_unet32 :: ('t, 'e, 'd, 'l) factory) =
     factory_template Resnet50Encoder (\<lambda>p. (Some p, Some [0, 1, 2, 3, 4], None))
       [32, 64, 128, 256] None 0 \<and>
   (resnet101_unet64 :: ('t, 'e, 'd, 'l) factory) =
     factory_template Resnet101Encoder (\<lambda>p. (Some p, Some [0, 1, 2, 3, 4], None))
       [64, 128, 256, 512] None 0.5 \<and>
   (resnet152_unet32 :: ('t, 'e, 'd, 'l) factory) =
     factory_template Resnet152Encoder (\<lambda>p. (Some p, Some [0, 1, 2, 3, 4], None))
       [32, 64, 128, 256] None 0 \<and>
   (densenet121_unet32 :: ('t, 'e, 'd, 'l) factory) =
     factory_template DenseNet121Encoder (\<lambda>p. (Some p, Some [0, 1, 2, 3, 4], None))
       [32, 64, 128, 256] None 0 \<and>
   (densenet161_unet32 :: ('t, 'e, 'd, 'l) factory) =
     factory_template DenseNet161Encoder (\<lambda>p. (Some p, Some [0, 1, 2, 3, 4], None))
       [32, 64, 128, 256] None 0 \<and>
   (densenet169_unet32 :: ('t, 'e, 'd, 'l) factory) =
     factory_template DenseNet169Encoder (\<lambda>p. (Some p, Some [0, 1, 2, 3, 4], None))
       [32, 64, 128, 256] None 0 \<and>
   (densenet201_unet32 :: ('t, 'e, 'd, 'l) factory) =
     factory_template DenseNet201Encoder (\<lambda>p. (Some p, Some [0, 1, 2, 3, 4], None))
       [32, 64, 128, 256] None 0 \<and>
   (hrnet18_unet32 :: ('t, 'e, 'd, 'l) factory) =
     factory_template HRNetV2Encoder18 (\<lambda>p. (Some p, None, None))
       [32, 64, 128, 256] None 0 \<and>
   (hrnet34_unet32 :: ('t, 'e, 'd, 'l) factory) =
     factory_template HRNetV2Encoder34 (\<lambda>p. (Some p, None, None))
       [32, 64, 128, 256] None 0 \<and>
   (hrnet48_unet32 :: ('t, 'e, 'd, 'l) factory) =
     factory_template HRNetV2Encoder48 (\<lambda>p. (Some p, None, None))
       [32, 64, 128, 256] None 0 \<and>
   (\<exists>kw. (b0_unet32 :: ('t, 'e, 'd, 'l) factory) =
     factory_template EfficientNetB0Encoder kw [32, 64, 128] (Some ACT_SWISH) 0) \<and>
   (\<exists>kw. (b5_unet32 :: ('t, 'e, 'd, 'l) factory) =
     factory_template EfficientNetB5Encoder kw [32, 64, 128] (Some ACT_SWISH) 0) \<and>
   (\<exists>kw. (b5_unet32_relu :: ('t, 'e, 'd, 'l) factory) =
     factory_template EfficientNetB5Encoder kw [32, 64, 128] (Some ACT_RELU) 0)"
  using factories_template by blast

text \<open>
  The claim as the specification states it, that every factory forwards \<^verbatim>\<open>pretrained\<close>,
  fails for \<^verbatim>\<open>b0_unet32\<close>: called with \<^verbatim>\<open>pretrained=False\<close> it constructs the backbone with
  no argument at all, and so does the same as with \<^verbatim>\<open>pretrained=True\<close>.
\<close>

theorem b0_unet32_pretrained_counterexample:
  "b0_unet32 shape_lib (default_args\<lparr>arg_pretrained := Some False\<rparr>) =
     (Inr \<lparr> encoder = (EfficientNetB0Encoder, 3, [(24, 4), (40, 8), (112, 16), (320, 32)]),
            decoder = [32, 64, 128],
            mask = [(''drop'', Drop 0), (''conv'', Conv 32 1)], full_size_mask = True \<rparr>,
      [(Call_new_encoder EfficientNetB0Encoder None None None, True),
       (Call_UNetDecoder [24, 40, 112, 320] (ChList [32, 64, 128])
          (UnetBlock_partial (ABN_partial ACT_SWISH)) UpsamplingNearest2d, True),
       (Call_Dropout2d 0, True), (Call_conv1x1 32 1, True)]) \<and>
   b0_unet32 shape_lib (default_args\<lparr>arg_pretrained := Some False\<rparr>) =
   b0_unet32 shape_lib (default_args\<lparr>arg_pretrained := Some True\<rparr>)"
  by (simp add: b0_unet32_def default_args_def construct_encoder_def
      UnetSegmentationModel_init_def shape_lib_def shape_new_encoder_def assign_items_def
      run_defs)

subsection \<open>The registry and the export list\<close>

text \<open>
  C6. After the module has been imported, the model registry holds every factory function
  the module defines, all fifteen, each under its own name and in the order of definition:
  every one of them went through the decorator \<^verbatim>\<open>Model\<close>.
\<close>

theorem all_factories_registered:
  "mod_registry (unet_module :: ('t, 'e, 'd, 'l) factory module_state) = mod_functions unet_module \<and>
   length (mod_registry (unet_module :: ('t, 'e, 'd, 'l) factory module_state)) = 15 \<and>
   mod_registry (unet_module :: ('t, 'e, 'd, 'l) factory module_state) =
     [(''resnet18_unet32'', resnet18_unet32),
     (''resnet34_unet32'', resnet34_unet32),
     (''resnet50_unet32'', resnet50_unet32),
     (''resnet101_unet64'', resnet101_unet64),
     (''resnet152_unet32'', resnet152_unet32),
     (''densenet121_unet32'', densenet121_unet32),
     (''densenet161_unet32'', densenet161_unet32),
     (''densenet169_unet32'', densenet169_unet32),
     (''densenet201_unet32'', densenet201_unet32),
     (''hrnet18_unet32'', hrnet18_unet32),
     (''hrnet34_unet32'', hrnet34_unet32),
     (''hrnet48_unet32'', hrnet48_unet32),
     (''b0_unet32'', b0_unet32),
     (''b5_unet32'', b5_unet32),
     (''b5_unet32_relu'', b5_unet32_relu)]"
  by (simp add: mod_registry_unet_module mod_functions_unet_module)

text \<open>
  C10. \<^verbatim>\<open>__all__\<close> names the class and twelve factories. The three HRNet factories are
  not in it, although the module defines them and registers them like the other twelve:
  they are exactly the registered names that \<^verbatim>\<open>__all__\<close> leaves out.
\<close>

theorem hrnet_factories_not_exported:
  "mod_exports (unet_module :: ('t, 'e, 'd, 'l) factory module_state) =
     [''UnetSegmentationModel'',
     ''resnet18_unet32'',
     ''resnet34_unet32'',
     ''resnet50_unet32'',
     ''resnet101_unet64'',
     ''resnet152_unet32'',
     ''densenet121_unet32'',
     ''densenet161_unet32'',
     ''densenet169_unet32'',
     ''densenet201_unet32'',
     ''b0_unet32'',
     ''b5_unet32'',
     ''b5_unet32_relu''] \<and>
   filter (\<lambda>n. n \<notin> set (mod_exports (unet_module :: ('t, 'e, 'd, 'l) factory module_state)))
     (map fst (mod_registry (unet_module :: ('t, 'e, 'd, 'l) factory module_state))) =
     [''hrnet18_unet32'', ''hrnet34_unet32'', ''hrnet48_unet32''] \<and>
   length (filter (\<lambda>n. n \<in> set (mod_exports (unet_module :: ('t, 'e, 'd, 'l) factory module_state)))
     (map fst (mod_registry (unet_module :: ('t, 'e, 'd, 'l) factory module_state)))) = 12 \<and>
   map_of (mod_functions (unet_module :: ('t, 'e, 'd, 'l) factory module_state)) ''hrnet18_unet32''
     = Some hrnet18_unet32 \<and>
   map_of (mod_functions (unet_module :: ('t, 'e, 'd, 'l) factory module_state)) ''hrnet34_unet32''
     = Some hrnet34_unet32 \<and>
   map_of (mod_functions (unet_module :: ('t, 'e, 'd, 'l) factory module_state)) ''hrnet48_unet32''
     = Some hrnet48_unet32 \<and>
   map_of (mod_registry (unet_module :: ('t, 'e, 'd, 'l) factory module_state)) ''hrnet18_unet32''
     = Some hrnet18_unet32 \<and>
   map_of (mod_registry (unet_module :: ('t, 'e, 'd, 'l) factory module_state)) ''hrnet34_unet32''
     = Some hrnet34_unet32 \<and>
   map_of (mod_registry (unet_module :: ('t, 'e, 'd, 'l) factory module_state)) ''hrnet48_unet32''
     = Some hrnet48_unet32"
proof -
  have ex: "mod_exports (unet_module :: ('t, 'e, 'd, 'l) factory module_state) =
     [''UnetSegmentationModel'',
     ''resnet18_unet32'',
     ''resnet34_unet32'',
     ''resnet50_unet32'',
     ''resnet101_unet64'',
     ''resnet152_unet32'',
     ''densenet121_unet32'',
     ''densenet161_unet32'',
     ''densenet169_unet32'',
     ''densenet201_unet32'',
     ''b0_unet32'',
     ''b5_unet32'',
     ''b5_unet32_relu'']"
    by (simp add: unet_module_def exec_module_def unet_module_body_def Model_def)
  show ?thesis
    unfolding ex mod_registry_unet_module mod_functions_unet_module by simp
qed

subsection \<open>The precondition on \<^verbatim>\<open>unet_channels\<close>\<close>

text \<open>
  C8. \<^verbatim>\<open>__init__\<close> returns only for a non-empty list \<^verbatim>\<open>unet_channels\<close>; for a plain integer
  it fails, whatever the library does. Every factory of the module meets the precondition:
  the channel widths it passes on are a non-empty list, and it never ends with the
  \<^verbatim>\<open>TypeError\<close> or \<^verbatim>\<open>IndexError\<close> of the subscript.
\<close>

theorem init_needs_channel_list:
  "(\<forall>self calls.
      UnetSegmentationModel_init (L :: ('t, 'e, 'd, 'l) lib) enc uc nc p fsm act
        = (Inr self, calls) \<longrightarrow>
      (\<exists>c cs. uc = ChList (c # cs))) \<and>
   (\<forall>n. isl (fst (UnetSegmentationModel_init L enc (ChInt n) nc p fsm act))) \<and>
   (\<forall>name f r calls.
      (name, f) \<in> set (mod_functions unet_module) \<and> f L args = (r, calls) \<longrightarrow>
        r \<noteq> Inl TypeError \<and> r \<noteq> Inl IndexError \<and>
        (\<forall>fm uc' ub up ok. (Call_UNetDecoder fm uc' ub up, ok) \<in> set calls \<longrightarrow>
           (\<exists>c cs. uc' = ChList (c # cs))))"
proof -
  have p1: "\<forall>self calls.
      UnetSegmentationModel_init L enc uc nc p fsm act = (Inr self, calls) \<longrightarrow>
      (\<exists>c cs. uc = ChList (c # cs))"
    unfolding init_success using unet_channels_after_list by blast
  have p2: "\<forall>n. isl (fst (UnetSegmentationModel_init L enc (ChInt n) nc p fsm act))"
    unfolding init_outcome by (simp split: sum.splits prod.splits)
  have p3: "\<forall>name f r calls.
      (name, f) \<in> set (mod_functions unet_module) \<and> f L args = (r, calls) \<longrightarrow>
        r \<noteq> Inl TypeError \<and> r \<noteq> Inl IndexError \<and>
        (\<forall>fm uc' ub up ok. (Call_UNetDecoder fm uc' ub up, ok) \<in> set calls \<longrightarrow>
           (\<exists>c cs. uc' = ChList (c # cs)))"
  proof (intro allI impI)
    fix name and f :: "('t, 'e, 'd, 'l) factory" and r calls
    assume "(name, f) \<in> set (mod_functions unet_module) \<and> f L args = (r, calls)"
    then have mem: "(name, f) \<in> set (mod_functions unet_module)"
      and run: "f L args = (r, calls)"
      by simp_all
    from module_factory_is_template [OF mem] obtain bb kw c cs act d where
      f: "f = factory_template bb kw (c # cs) act d" by blast
    from f run have t: "factory_template bb kw (c # cs) act d L args = (r, calls)" by simp
    have "\<exists>c cs. uc' = ChList (c # cs)"
      if "(Call_UNetDecoder fm uc' ub up, ok) \<in> set calls" for fm uc' ub up ok
      using template_decoder_features [OF t that] by blast
    with template_no_subscript_error [OF t]
    show "r \<noteq> Inl TypeError \<and> r \<noteq> Inl IndexError \<and>
        (\<forall>fm uc' ub up ok. (Call_UNetDecoder fm uc' ub up, ok) \<in> set calls \<longrightarrow>
           (\<exists>c cs. uc' = ChList (c # cs)))"
      by blast
  qed
  show ?thesis by (rule conjI [OF p1 conjI [OF p2 p3]])
qed

theorem init_needs_channel_list_witness:
  "UnetSegmentationModel_init shape_lib shape_resnet18 (ChList [32, 64, 128, 256]) None
     (Some 0) None None =
     (Inr shape_model,
      [(Call_UNetDecoder [64, 64, 128, 256, 512] (ChList [32, 64, 128, 256])
          (UnetBlock_partial (ABN_partial ACT_RELU)) UpsamplingNearest2d, True),
       (Call_Dropout2d 0, True), (Call_conv1x1 32 1, True)]) \<and>
   isl (fst (UnetSegmentationModel_init shape_lib shape_resnet18 (ChInt 32) None
               (Some 0) None None)) \<and>
   (''resnet18_unet32'', resnet18_unet32) \<in> set (mod_functions unet_module) \<and>
   resnet18_unet32 shape_lib default_args =
     (Inr shape_model,
      [(Call_new_encoder Resnet18Encoder (Some True) (Some [0, 1, 2, 3, 4]) None, True),
       (Call_UNetDecoder [64, 64, 128, 256, 512] (ChList [32, 64, 128, 256])
          (UnetBlock_partial (ABN_partial ACT_RELU)) UpsamplingNearest2d, True),
       (Call_Dropout2d 0, True), (Call_conv1x1 32 1, True)])"
  using init_needs_channel_list [where L = shape_lib and enc = shape_resnet18
      and nc = None and p = "Some 0" and fsm = None and act = None]
    init_shape_model resnet18_in_module resnet18_default_run
  by blast

subsection \<open>Failures\<close>




end
